theory Spec2Isabelle
  imports Main "HOL-Library.AList"
begin

section \<open>JavaScript values used by the wrapper\<close>

text \<open>
  A thrown value is either an instance of \<open>Error\<close> (with its \<open>message\<close>) or any other
  value. Both may or may not carry a \<open>rateLimit\<close> property; when the property exists its
  value is either falsy (\<open>undefined\<close>, \<open>null\<close>) or the payload object with the three
  numbers the handler reads.
\<close>

record rate_limit_payload =
  rl_limit :: int
  rl_remaining :: int
  rl_reset :: int

datatype rateLimit_prop = NoProperty | FalsyValue | Payload rate_limit_payload

datatype js_thrown = ErrorInstance string rateLimit_prop | NonError rateLimit_prop

text \<open>
  A \<open>Date\<close> object holds a time value in milliseconds since the epoch, or is the
  "Invalid Date". \<open>new Date(n)\<close> clips the number to the range of representable
  times; \<open>new Date(s)\<close> parses the string with the runtime's \<open>Date.parse\<close>, which is
  a parameter here (\<open>None\<close> stands for its result \<open>NaN\<close>); \<open>new Date()\<close> reads the
  clock, which is a parameter too.
\<close>

datatype js_date = Date int | InvalidDate

record js_runtime =
  now :: int
  dateParse :: "string \<Rightarrow> int option"

definition newDate_ms :: "int \<Rightarrow> js_date" where
  "newDate_ms t = (if \<bar>t\<bar> \<le> 8640000000000000 then Date t else InvalidDate)"

definition newDate_str :: "js_runtime \<Rightarrow> string \<Rightarrow> js_date" where
  "newDate_str rt s = (case dateParse rt s of None \<Rightarrow> InvalidDate | Some t \<Rightarrow> newDate_ms t)"

definition newDate_now :: "js_runtime \<Rightarrow> js_date" where
  "newDate_now rt = Date (now rt)"

text \<open>
  The operator \<open>x || d\<close> on an optional number, string or boolean: the default is taken
  when the left operand is \<open>undefined\<close> or falsy (\<open>0\<close>, the empty string, \<open>false\<close>).
\<close>

definition or_num :: "int option \<Rightarrow> int \<Rightarrow> int" where
  "or_num x d = (case x of None \<Rightarrow> d | Some v \<Rightarrow> if v = 0 then d else v)"

definition or_str :: "string option \<Rightarrow> string \<Rightarrow> string" where
  "or_str x d = (case x of None \<Rightarrow> d | Some s \<Rightarrow> if s = [] then d else s)"

definition or_bool :: "bool option \<Rightarrow> bool \<Rightarrow> bool" where
  "or_bool x d = (case x of None \<Rightarrow> d | Some b \<Rightarrow> if b then True else d)"

definition truthy_str :: "string option \<Rightarrow> bool" where
  "truthy_str x = (case x of None \<Rightarrow> False | Some s \<Rightarrow> s \<noteq> [])"

section \<open>Configuration loader (src/config/env.ts)\<close>

record TwitterConfig =
  apiKey :: string
  apiSecret :: string
  accessToken :: string
  accessTokenSecret :: string
  bearerToken :: string

record AnthropicConfig =
  anthropicApiKey :: string

record AppSettings =
  environment :: string
  logLevel :: string

record AppConfig =
  twitter :: TwitterConfig
  anthropic :: AnthropicConfig
  app :: AppSettings

text \<open>\<open>process.env\<close> is a dictionary from variable names to strings.\<close>

type_synonym process_env = "string \<rightharpoonup> string"

definition getEnvVar :: "process_env \<Rightarrow> string \<Rightarrow> bool \<Rightarrow> js_thrown + string" where
  "getEnvVar env name required =
     (let value = env name in
      if required \<and> \<not> truthy_str value
      then Inl (ErrorInstance (''Missing required environment variable: '' @ name) NoProperty)
      else Inr (case value of None \<Rightarrow> [] | Some v \<Rightarrow> v))"

text \<open>
  Sequencing of computations that may throw: the first throw ends the sequence.
\<close>

definition andThen :: "js_thrown + 'a \<Rightarrow> ('a \<Rightarrow> js_thrown + 'b) \<Rightarrow> js_thrown + 'b" where
  "andThen r f = (case r of Inl e \<Rightarrow> Inl e | Inr v \<Rightarrow> f v)"

text \<open>
  The object literal of \<open>loadConfig\<close> evaluates its properties in the order written, so
  the first \<open>getEnvVar\<close> that throws ends the call.
\<close>

definition loadConfig :: "process_env \<Rightarrow> js_thrown + AppConfig" where
  "loadConfig env =
     andThen (getEnvVar env ''TWITTER_API_KEY'' True) (\<lambda>k.
     andThen (getEnvVar env ''TWITTER_API_SECRET'' True) (\<lambda>s.
     andThen (getEnvVar env ''TWITTER_ACCESS_TOKEN'' True) (\<lambda>t.
     andThen (getEnvVar env ''TWITTER_ACCESS_TOKEN_SECRET'' True) (\<lambda>ts.
     andThen (getEnvVar env ''TWITTER_BEARER_TOKEN'' True) (\<lambda>b.
     andThen (getEnvVar env ''ANTHROPIC_API_KEY'' False) (\<lambda>a.
     Inr \<lparr> twitter = \<lparr> apiKey = k, apiSecret = s, accessToken = t,
                        accessTokenSecret = ts, bearerToken = b \<rparr>,
           anthropic = \<lparr> anthropicApiKey = a \<rparr>,
           app = \<lparr> environment = or_str (env ''NODE_ENV'') ''development'',
                   logLevel = or_str (env ''LOG_LEVEL'') ''info'' \<rparr> \<rparr>))))))"

text \<open>
  Vocabulary for the statements about the loader: the five required names in the order
  \<open>loadConfig\<close> reads them, a variable being missing or empty, and the message of the
  error thrown for a name.
\<close>

definition requiredVars :: "string list" where
  "requiredVars = [''TWITTER_API_KEY'', ''TWITTER_API_SECRET'', ''TWITTER_ACCESS_TOKEN'',
                   ''TWITTER_ACCESS_TOKEN_SECRET'', ''TWITTER_BEARER_TOKEN'']"

definition missingOrEmpty :: "process_env \<Rightarrow> string \<Rightarrow> bool" where
  "missingOrEmpty env name = (env name = None \<or> env name = Some [])"

definition missingVariable :: "string \<Rightarrow> js_thrown" where
  "missingVariable name =
     ErrorInstance (''Missing required environment variable: '' @ name) NoProperty"

section \<open>Raw payloads of the platform library\<close>

text \<open>
  The fields of \<open>TweetV2\<close>, \<open>UserV2\<close> and the included media objects that the wrapper
  requests. Optional fields are options; counts are integers.
\<close>

record TweetPublicMetricsV2 =
  like_count :: "int option"
  retweet_count :: "int option"
  reply_count :: "int option"
  impression_count :: "int option"
  quote_count :: "int option"
  bookmark_count :: "int option"

record ReferencedTweetV2 =
  ref_type :: string
  ref_id :: string

record TweetV2 =
  tweet_id :: string
  tweet_text :: string
  tweet_author_id :: "string option"
  tweet_created_at :: "string option"
  tweet_public_metrics :: "TweetPublicMetricsV2 option"
  tweet_attachments_media_keys :: "string list option"
  tweet_referenced_tweets :: "ReferencedTweetV2 list option"

record MediaObjectV2 =
  media_key :: string
  media_type :: string
  media_url :: "string option"
  preview_image_url :: "string option"
  width :: "int option"
  height :: "int option"
  duration_ms :: "int option"

record UserPublicMetricsV2 =
  followers_count :: "int option"
  following_count :: "int option"
  tweet_count :: "int option"

record UserV2 =
  user_id :: string
  user_name :: string
  user_username :: string
  user_description :: "string option"
  user_profile_image_url :: "string option"
  user_public_metrics :: "UserPublicMetricsV2 option"
  user_verified :: "bool option"
  user_created_at :: "string option"

text \<open>
  Responses. \<open>page_tweets\<close> is \<open>response.data?.data\<close>, the \<open>includes_media\<close> fields are
  \<open>response.includes?.media\<close>, and \<open>page_meta\<close> is \<open>response.meta\<close>; each is \<open>None\<close>
  when the optional chain yields \<open>undefined\<close>.
\<close>

record UserV2Result =
  user_data :: "UserV2 option"

record TweetV2SingleResult =
  tweet_data :: "TweetV2 option"
  tweet_includes_media :: "MediaObjectV2 list option"

record PageMetaV2 =
  next_token :: "string option"
  previous_token :: "string option"
  result_count :: "int option"

record TweetV2Page =
  page_tweets :: "TweetV2 list option"
  page_includes_media :: "MediaObjectV2 list option"
  page_meta :: "PageMetaV2 option"

text \<open>
  Requests. The text sent for a time bound is the ISO-8601 rendering of a time value;
  only the time value it denotes is kept.
\<close>

datatype iso_string = ISO int

record UserLookupParams =
  user_fields :: "string list"

record TweetLookupParams =
  tweet_fields :: "string list"
  media_fields :: "string list"
  expansions :: "string list"

record TimelineParams = TweetLookupParams +
  max_results :: int
  pagination_token :: "string option"
  start_time :: "iso_string option"
  end_time :: "iso_string option"

record SearchParams = TweetLookupParams +
  search_max_results :: int
  search_next_token :: "string option"

text \<open>
  The calls of the library's v2 client that the wrapper makes. Each either throws
  (\<open>Inl\<close>) or returns its response (\<open>Inr\<close>). \<open>me\<close> is called on the full client, all
  others on its read-only view. The library is outside the repository, so its behaviour
  is a parameter of every operation.
\<close>

record v2_api =
  me :: "unit \<Rightarrow> js_thrown + UserV2Result"
  tweets :: "string list \<Rightarrow> js_thrown + TweetV2 list"
  userByUsername :: "string \<Rightarrow> UserLookupParams \<Rightarrow> js_thrown + UserV2Result"
  user :: "string \<Rightarrow> UserLookupParams \<Rightarrow> js_thrown + UserV2Result"
  userTimeline :: "string \<Rightarrow> TimelineParams \<Rightarrow> js_thrown + TweetV2Page"
  singleTweet :: "string \<Rightarrow> TweetLookupParams \<Rightarrow> js_thrown + TweetV2SingleResult"
  search :: "string \<Rightarrow> SearchParams \<Rightarrow> js_thrown + TweetV2Page"

section \<open>Domain model (lib/twitter/types.ts)\<close>

record TweetMetrics =
  likes :: int
  retweets :: int
  replies :: int
  impressions :: int
  quotes :: int
  bookmarks :: int

record MediaAttachment =
  attachment_type :: string
  url :: string
  previewUrl :: "string option"
  attachment_width :: "int option"
  attachment_height :: "int option"
  durationMs :: "int option"

text \<open>
  The \<open>type\<close> of a reference is one of three literals for the type checker only; at run
  time it is whatever string the payload holds.
\<close>

record ReferencedTweet =
  referenced_type :: string
  referenced_id :: string

record Tweet =
  tweetId :: string
  tweetText :: string
  authorId :: string
  createdAt :: js_date
  metrics :: TweetMetrics
  media :: "MediaAttachment list option"
  referencedTweets :: "ReferencedTweet list option"

record TwitterUser =
  userId :: string
  username :: string
  displayName :: string
  description :: string
  profileImageUrl :: string
  followersCount :: int
  followingCount :: int
  tweetCount :: int
  verified :: bool
  userCreatedAt :: js_date

record RateLimitInfo =
  endpoint :: string
  limit :: int
  remaining :: int
  reset :: js_date

record ResponseMeta =
  nextToken :: "string option"
  previousToken :: "string option"
  resultCount :: int

record 'a PaginatedResponse =
  data :: "'a list"
  meta :: ResponseMeta

section \<open>The client wrapper (lib/twitter/client.ts)\<close>

text \<open>
  What \<open>new TwitterApi(...)\<close> is given: the bearer token alone, or the four
  user-context credentials. The read-only view wraps the same handle.
\<close>

datatype TwitterApi = BearerToken string | UserContext string string string string

datatype TwitterApiReadOnly = ReadOnly TwitterApi

datatype console_arg = Text string | Value js_thrown

text \<open>
  The instance fields, and with them the lines written by \<open>console.error\<close> (each call
  has two arguments), so that logging is a visible effect of an operation.
\<close>

record TwitterClient =
  client :: TwitterApi
  readOnlyClient :: TwitterApiReadOnly
  rateLimits :: "(string \<times> RateLimitInfo) list"
  authMethod :: string
  console :: "(string \<times> console_arg) list"

record TwitterClientOptions =
  config :: TwitterConfig
  authMethodOption :: "string option"

definition constructor :: "TwitterClientOptions \<Rightarrow> TwitterClient" where
  "constructor options =
     (let cfg = config options;
          method = (case authMethodOption options of None \<Rightarrow> ''oauth2-app'' | Some m \<Rightarrow> m);
          handle =
            (if method = ''oauth2-app'' then BearerToken (bearerToken cfg)
             else if method = ''oauth1''
             then UserContext (apiKey cfg) (apiSecret cfg) (accessToken cfg) (accessTokenSecret cfg)
             else BearerToken (bearerToken cfg))
      in \<lparr> client = handle, readOnlyClient = ReadOnly handle, rateLimits = [],
           authMethod = method, console = [] \<rparr>)"

definition console_error :: "TwitterClient \<Rightarrow> string \<Rightarrow> console_arg \<Rightarrow> TwitterClient" where
  "console_error self label arg = self\<lparr> console := console self @ [(label, arg)] \<rparr>"

text \<open>
  \<open>Map.prototype.set\<close> replaces the value of an existing key in place and appends a new
  key at the end, which is what \<open>AList.update\<close> does on the list of entries.
\<close>

definition handleError :: "TwitterClient \<Rightarrow> js_thrown \<Rightarrow> string \<Rightarrow> TwitterClient" where
  "handleError self error context =
     (case error of
        ErrorInstance message rateLimit \<Rightarrow>
          (let logged = console_error self (''[TwitterClient.'' @ context @ ''] Error:'') (Text message)
           in case rateLimit of
                Payload p \<Rightarrow>
                  logged\<lparr> rateLimits :=
                    AList.update context
                      \<lparr> endpoint = context, limit = rl_limit p, remaining = rl_remaining p,
                        reset = newDate_ms (rl_reset p * 1000) \<rparr>
                      (rateLimits logged) \<rparr>
              | FalsyValue \<Rightarrow> logged
              | NoProperty \<Rightarrow> logged)
      | NonError rateLimit \<Rightarrow>
          console_error self (''[TwitterClient.'' @ context @ ''] Unknown error:'') (Value error))"

definition getRateLimitInfo :: "TwitterClient \<Rightarrow> string \<Rightarrow> RateLimitInfo option" where
  "getRateLimitInfo self endpoint_name = map_of (rateLimits self) endpoint_name"

definition getAllRateLimits :: "TwitterClient \<Rightarrow> RateLimitInfo list" where
  "getAllRateLimits self = map snd (rateLimits self)"

subsection \<open>Mapping raw payloads\<close>

text \<open>
  \<open>new Map(pairs)\<close> sets the pairs one after the other, so a later pair with the same
  key wins.
\<close>

definition mediaMapOf :: "MediaObjectV2 list option \<Rightarrow> (string \<rightharpoonup> MediaObjectV2)" where
  "mediaMapOf includes_media =
     map_of (rev (map (\<lambda>m. (media_key m, m)) (case includes_media of None \<Rightarrow> [] | Some ms \<Rightarrow> ms)))"

text \<open>
  \<open>x ? new Date(x) : new Date()\<close> tests the string for truthiness only: an absent or
  empty string gives the clock reading, any other string is handed to the parser. The
  media map is a parameter of \<open>mapTweet\<close> that its body never reads, and the object it
  returns has no \<open>media\<close> property.
\<close>

definition mapTweet :: "js_runtime \<Rightarrow> TweetV2 \<Rightarrow> (string \<rightharpoonup> MediaObjectV2) \<Rightarrow> Tweet" where
  "mapTweet rt tweet mediaMap =
     (let raw = tweet_public_metrics tweet in
      \<lparr> tweetId = tweet_id tweet,
        tweetText = tweet_text tweet,
        authorId = or_str (tweet_author_id tweet) [],
        createdAt = (case tweet_created_at tweet of
                       None \<Rightarrow> newDate_now rt
                     | Some s \<Rightarrow> if s = [] then newDate_now rt else newDate_str rt s),
        metrics = \<lparr> likes = or_num (Option.bind raw like_count) 0,
                    retweets = or_num (Option.bind raw retweet_count) 0,
                    replies = or_num (Option.bind raw reply_count) 0,
                    impressions = or_num (Option.bind raw impression_count) 0,
                    quotes = or_num (Option.bind raw quote_count) 0,
                    bookmarks = or_num (Option.bind raw bookmark_count) 0 \<rparr>,
        media = None,
        referencedTweets =
          map_option (map (\<lambda>ref. \<lparr> referenced_type = ref_type ref, referenced_id = ref_id ref \<rparr>))
            (tweet_referenced_tweets tweet) \<rparr>)"

definition mapUser :: "js_runtime \<Rightarrow> UserV2 \<Rightarrow> TwitterUser" where
  "mapUser rt u =
     (let raw = user_public_metrics u in
      \<lparr> userId = user_id u,
        username = user_username u,
        displayName = user_name u,
        description = or_str (user_description u) [],
        profileImageUrl = or_str (user_profile_image_url u) [],
        followersCount = or_num (Option.bind raw followers_count) 0,
        followingCount = or_num (Option.bind raw following_count) 0,
        tweetCount = or_num (Option.bind raw tweet_count) 0,
        verified = or_bool (user_verified u) False,
        userCreatedAt = (case user_created_at u of
                           None \<Rightarrow> newDate_now rt
                         | Some s \<Rightarrow> if s = [] then newDate_now rt else newDate_str rt s) \<rparr>)"

subsection \<open>Operations\<close>

text \<open>
  Every operation is \<open>try { body } catch (error) { ... }\<close>. The body is a computation
  that may throw; the operation returns the outcome of its promise (\<open>Inl\<close> would be a
  rejection) together with the instance after the call. The clock is read once per call.
\<close>

definition verifyCredentials_try :: "v2_api \<Rightarrow> TwitterClient \<Rightarrow> js_thrown + bool" where
  "verifyCredentials_try api self =
     (if authMethod self = ''oauth1''
      then andThen (me api ()) (\<lambda>me_response. Inr (user_data me_response \<noteq> None))
      else andThen (tweets api [''1'']) (\<lambda>test. Inr True))"

definition verifyCredentials :: "v2_api \<Rightarrow> TwitterClient \<Rightarrow> (js_thrown + bool) \<times> TwitterClient" where
  "verifyCredentials api self =
     (case verifyCredentials_try api self of
        Inr v \<Rightarrow> (Inr v, self)
      | Inl error \<Rightarrow>
          (Inr False, console_error self ''Credential verification failed:'' (Value error)))"

definition userFields :: "string list" where
  "userFields = [''id'', ''name'', ''username'', ''description'', ''profile_image_url'',
                 ''public_metrics'', ''verified'', ''created_at'']"

definition tweetFields :: "string list" where
  "tweetFields = [''id'', ''text'', ''author_id'', ''created_at'', ''public_metrics'',
                  ''attachments'', ''referenced_tweets'']"

definition mediaFields :: "string list" where
  "mediaFields = [''type'', ''url'', ''preview_image_url'', ''width'', ''height'', ''duration_ms'']"

definition tweetExpansions :: "string list" where
  "tweetExpansions = [''attachments.media_keys'', ''referenced_tweets.id'']"

definition getUser_try :: "v2_api \<Rightarrow> js_runtime \<Rightarrow> string \<Rightarrow> js_thrown + TwitterUser option" where
  "getUser_try api rt name =
     andThen (userByUsername api name \<lparr> user_fields = userFields \<rparr>) (\<lambda>response.
       case user_data response of
         None \<Rightarrow> Inr None
       | Some d \<Rightarrow> Inr (Some (mapUser rt d)))"

definition getUser ::
  "v2_api \<Rightarrow> js_runtime \<Rightarrow> TwitterClient \<Rightarrow> string \<Rightarrow> (js_thrown + TwitterUser option) \<times> TwitterClient" where
  "getUser api rt self name =
     (case getUser_try api rt name of
        Inr v \<Rightarrow> (Inr v, self)
      | Inl error \<Rightarrow> (Inr None, handleError self error ''getUser''))"

definition getUserById_try :: "v2_api \<Rightarrow> js_runtime \<Rightarrow> string \<Rightarrow> js_thrown + TwitterUser option" where
  "getUserById_try api rt uid =
     andThen (user api uid \<lparr> user_fields = userFields \<rparr>) (\<lambda>response.
       case user_data response of
         None \<Rightarrow> Inr None
       | Some d \<Rightarrow> Inr (Some (mapUser rt d)))"

definition getUserById ::
  "v2_api \<Rightarrow> js_runtime \<Rightarrow> TwitterClient \<Rightarrow> string \<Rightarrow> (js_thrown + TwitterUser option) \<times> TwitterClient" where
  "getUserById api rt self uid =
     (case getUserById_try api rt uid of
        Inr v \<Rightarrow> (Inr v, self)
      | Inl error \<Rightarrow> (Inr None, handleError self error ''getUserById''))"

text \<open>
  \<open>startTime?.toISOString()\<close>: nothing for an absent bound, the text of a valid date,
  and a \<open>RangeError\<close> (an \<open>Error\<close> instance) for an invalid one.
\<close>

definition toISOString :: "js_date \<Rightarrow> js_thrown + iso_string" where
  "toISOString d =
     (case d of
        Date t \<Rightarrow> Inr (ISO t)
      | InvalidDate \<Rightarrow> Inl (ErrorInstance ''Invalid time value'' NoProperty))"

definition optionalISOString :: "js_date option \<Rightarrow> js_thrown + iso_string option" where
  "optionalISOString d =
     (case d of
        None \<Rightarrow> Inr None
      | Some v \<Rightarrow> andThen (toISOString v) (\<lambda>text_value. Inr (Some text_value)))"

record UserTweetsOptions =
  maxResults :: "int option"
  paginationToken :: "string option"
  startTime :: "js_date option"
  endTime :: "js_date option"

record SearchOptions =
  searchMaxResults :: "int option"
  searchPaginationToken :: "string option"

definition getUserTweets_try ::
  "v2_api \<Rightarrow> js_runtime \<Rightarrow> string \<Rightarrow> UserTweetsOptions \<Rightarrow> js_thrown + Tweet PaginatedResponse" where
  "getUserTweets_try api rt uid options =
     andThen (optionalISOString (startTime options)) (\<lambda>start_text.
     andThen (optionalISOString (endTime options)) (\<lambda>end_text.
     andThen (userTimeline api uid
                \<lparr> tweet_fields = tweetFields, media_fields = mediaFields,
                  expansions = tweetExpansions,
                  max_results = (case maxResults options of None \<Rightarrow> 100 | Some n \<Rightarrow> n),
                  pagination_token = paginationToken options,
                  start_time = start_text, end_time = end_text \<rparr>) (\<lambda>response.
       let tweet_list = (case page_tweets response of None \<Rightarrow> [] | Some ts \<Rightarrow> ts);
           mediaMap = mediaMapOf (page_includes_media response)
       in Inr \<lparr> data = map (\<lambda>tweet. mapTweet rt tweet mediaMap) tweet_list,
                meta = \<lparr> nextToken = Option.bind (page_meta response) next_token,
                         previousToken = Option.bind (page_meta response) previous_token,
                         resultCount = or_num (Option.bind (page_meta response) result_count) 0 \<rparr> \<rparr>)))"

definition getUserTweets ::
  "v2_api \<Rightarrow> js_runtime \<Rightarrow> TwitterClient \<Rightarrow> string \<Rightarrow> UserTweetsOptions
     \<Rightarrow> (js_thrown + Tweet PaginatedResponse) \<times> TwitterClient" where
  "getUserTweets api rt self uid options =
     (case getUserTweets_try api rt uid options of
        Inr v \<Rightarrow> (Inr v, self)
      | Inl error \<Rightarrow> (Inr \<lparr> data = [], meta = \<lparr> nextToken = None, previousToken = None, resultCount = 0 \<rparr> \<rparr>,
           handleError self error ''getUserTweets''))"

definition getTweet_try :: "v2_api \<Rightarrow> js_runtime \<Rightarrow> string \<Rightarrow> js_thrown + Tweet option" where
  "getTweet_try api rt tid =
     andThen (singleTweet api tid
                \<lparr> tweet_fields = tweetFields, media_fields = mediaFields,
                  expansions = tweetExpansions \<rparr>) (\<lambda>response.
       case tweet_data response of
         None \<Rightarrow> Inr None
       | Some d \<Rightarrow> Inr (Some (mapTweet rt d (mediaMapOf (tweet_includes_media response)))))"

definition getTweet ::
  "v2_api \<Rightarrow> js_runtime \<Rightarrow> TwitterClient \<Rightarrow> string \<Rightarrow> (js_thrown + Tweet option) \<times> TwitterClient" where
  "getTweet api rt self tid =
     (case getTweet_try api rt tid of
        Inr v \<Rightarrow> (Inr v, self)
      | Inl error \<Rightarrow> (Inr None, handleError self error ''getTweet''))"

definition searchTweets_try ::
  "v2_api \<Rightarrow> js_runtime \<Rightarrow> string \<Rightarrow> SearchOptions \<Rightarrow> js_thrown + Tweet PaginatedResponse" where
  "searchTweets_try api rt query options =
     andThen (search api query
                \<lparr> tweet_fields = tweetFields, media_fields = mediaFields,
                  expansions = tweetExpansions,
                  search_max_results = (case searchMaxResults options of None \<Rightarrow> 100 | Some n \<Rightarrow> n),
                  search_next_token = searchPaginationToken options \<rparr>) (\<lambda>response.
       let tweet_list = (case page_tweets response of None \<Rightarrow> [] | Some ts \<Rightarrow> ts);
           mediaMap = mediaMapOf (page_includes_media response)
       in Inr \<lparr> data = map (\<lambda>tweet. mapTweet rt tweet mediaMap) tweet_list,
                meta = \<lparr> nextToken = Option.bind (page_meta response) next_token,
                         previousToken = None,
                         resultCount = or_num (Option.bind (page_meta response) result_count) 0 \<rparr> \<rparr>)"

definition searchTweets ::
  "v2_api \<Rightarrow> js_runtime \<Rightarrow> TwitterClient \<Rightarrow> string \<Rightarrow> SearchOptions
     \<Rightarrow> (js_thrown + Tweet PaginatedResponse) \<times> TwitterClient" where
  "searchTweets api rt self query options =
     (case searchTweets_try api rt query options of
        Inr v \<Rightarrow> (Inr v, self)
      | Inl error \<Rightarrow> (Inr \<lparr> data = [], meta = \<lparr> nextToken = None, previousToken = None, resultCount = 0 \<rparr> \<rparr>,
           handleError self error ''searchTweets''))"

subsection \<open>Histories of one instance\<close>




section \<open>Example inputs\<close>

text \<open>
  The configuration and the environment of the repository's tests, a clock and a date
  parser that knows the timestamps of the test payloads, a library whose every call
  throws a given value, and a library that answers a timeline request with one post
  whose media key is among the included media.
\<close>

definition exampleConfig :: TwitterConfig where
  "exampleConfig =
     \<lparr> apiKey = ''test-api-key'', apiSecret = ''test-api-secret'',
       accessToken = ''test-access-token'', accessTokenSecret = ''test-access-token-secret'',
       bearerToken = ''test-bearer-token'' \<rparr>"

definition exampleEnv :: process_env where
  "exampleEnv =
     [''TWITTER_API_KEY'' \<mapsto> ''test-api-key'',
      ''TWITTER_API_SECRET'' \<mapsto> ''test-api-secret'',
      ''TWITTER_ACCESS_TOKEN'' \<mapsto> ''test-access-token'',
      ''TWITTER_ACCESS_TOKEN_SECRET'' \<mapsto> ''test-access-token-secret'',
      ''TWITTER_BEARER_TOKEN'' \<mapsto> ''test-bearer-token'']"

definition exampleRuntime :: js_runtime where
  "exampleRuntime =
     \<lparr> now = 1762128000000,
       dateParse = map_of [(''2020-01-01T00:00:00.000Z'', 1577836800000),
                           (''2024-01-01T00:00:00.000Z'', 1704067200000),
                           (''2024-01-02T00:00:00.000Z'', 1704153600000)] \<rparr>"

definition throwingApi :: "js_thrown \<Rightarrow> v2_api" where
  "throwingApi e =
     \<lparr> me = (\<lambda>_. Inl e), tweets = (\<lambda>_. Inl e), userByUsername = (\<lambda>_ _. Inl e),
       user = (\<lambda>_ _. Inl e), userTimeline = (\<lambda>_ _. Inl e), singleTweet = (\<lambda>_ _. Inl e),
       search = (\<lambda>_ _. Inl e) \<rparr>"

definition rateLimited :: js_thrown where
  "rateLimited =
     ErrorInstance ''Request failed with code 429''
       (Payload \<lparr> rl_limit = 15, rl_remaining = 0, rl_reset = 1762128900 \<rparr>)"

definition exampleUser :: UserV2 where
  "exampleUser =
     \<lparr> user_id = ''123'', user_name = ''Test User'', user_username = ''testuser'',
       user_description = Some ''Test description'',
       user_profile_image_url = Some ''https://example.com/image.jpg'',
       user_public_metrics = Some \<lparr> followers_count = Some 1000, following_count = Some 500,
                                     tweet_count = Some 100 \<rparr>,
       user_verified = Some False, user_created_at = Some ''2020-01-01T00:00:00.000Z'' \<rparr>"

definition exampleTweet :: TweetV2 where
  "exampleTweet =
     \<lparr> tweet_id = ''tweet1'', tweet_text = ''Test tweet'', tweet_author_id = Some ''123'',
       tweet_created_at = Some ''2024-01-01T00:00:00.000Z'',
       tweet_public_metrics = Some \<lparr> like_count = Some 100, retweet_count = Some 50,
                                      reply_count = Some 10, impression_count = Some 5000,
                                      quote_count = None, bookmark_count = None \<rparr>,
       tweet_attachments_media_keys = Some [''3_1''],
       tweet_referenced_tweets = Some [\<lparr> ref_type = ''pinned'', ref_id = ''tweet0'' \<rparr>] \<rparr>"

definition examplePhoto :: MediaObjectV2 where
  "examplePhoto =
     \<lparr> media_key = ''3_1'', media_type = ''photo'',
       media_url = Some ''https://example.com/photo.jpg'', preview_image_url = None,
       width = Some 1200, height = Some 800, duration_ms = None \<rparr>"

definition examplePage :: TweetV2Page where
  "examplePage =
     \<lparr> page_tweets = Some [exampleTweet], page_includes_media = Some [examplePhoto],
       page_meta = Some \<lparr> next_token = Some ''next123'', previous_token = None,
                          result_count = Some 1 \<rparr> \<rparr>"

definition answeringApi :: v2_api where
  "answeringApi =
     \<lparr> me = (\<lambda>_. Inr \<lparr> user_data = Some exampleUser \<rparr>),
       tweets = (\<lambda>_. Inr []),
       userByUsername = (\<lambda>_ _. Inr \<lparr> user_data = Some exampleUser \<rparr>),
       user = (\<lambda>_ _. Inr \<lparr> user_data = Some exampleUser \<rparr>),
       userTimeline = (\<lambda>_ _. Inr examplePage),
       singleTweet = (\<lambda>_ _. Inr \<lparr> tweet_data = Some exampleTweet,
                                    tweet_includes_media = Some [examplePhoto] \<rparr>),
       search = (\<lambda>_ _. Inr examplePage) \<rparr>"

definition exampleClient :: TwitterClient where
  "exampleClient = constructor \<lparr> config = exampleConfig, authMethodOption = Some ''oauth2-app'' \<rparr>"

definition noTimelineOptions :: UserTweetsOptions where
  "noTimelineOptions =
     \<lparr> maxResults = None, paginationToken = None, startTime = None, endTime = None \<rparr>"

definition noSearchOptions :: SearchOptions where
  "noSearchOptions = \<lparr> searchMaxResults = None, searchPaginationToken = None \<rparr>"

section \<open>The configuration loader: what is thrown and what is returned\<close>

lemma getEnvVar_required:
  "getEnvVar env name True =
     (if missingOrEmpty env name then Inl (missingVariable name) else Inr (the (env name)))"
  by (auto simp: getEnvVar_def missingOrEmpty_def missingVariable_def truthy_str_def
           split: option.splits)

lemma getEnvVar_optional:
  "getEnvVar env name False = Inr (case env name of None \<Rightarrow> [] | Some v \<Rightarrow> v)"
  by (simp add: getEnvVar_def)

lemma loadConfig_first_missing:
  "loadConfig env =
     (if missingOrEmpty env ''TWITTER_API_KEY'' then Inl (missingVariable ''TWITTER_API_KEY'')
      else if missingOrEmpty env ''TWITTER_API_SECRET'' then Inl (missingVariable ''TWITTER_API_SECRET'')
      else if missingOrEmpty env ''TWITTER_ACCESS_TOKEN'' then Inl (missingVariable ''TWITTER_ACCESS_TOKEN'')
      else if missingOrEmpty env ''TWITTER_ACCESS_TOKEN_SECRET''
        then Inl (missingVariable ''TWITTER_ACCESS_TOKEN_SECRET'')
      else if missingOrEmpty env ''TWITTER_BEARER_TOKEN'' then Inl (missingVariable ''TWITTER_BEARER_TOKEN'')
      else Inr \<lparr> twitter = \<lparr> apiKey = the (env ''TWITTER_API_KEY''),
                    apiSecret = the (env ''TWITTER_API_SECRET''),
                    accessToken = the (env ''TWITTER_ACCESS_TOKEN''),
                    accessTokenSecret = the (env ''TWITTER_ACCESS_TOKEN_SECRET''),
                    bearerToken = the (env ''TWITTER_BEARER_TOKEN'') \<rparr>,
           anthropic = \<lparr> anthropicApiKey = (case env ''ANTHROPIC_API_KEY'' of None \<Rightarrow> [] | Some v \<Rightarrow> v) \<rparr>,
           app = \<lparr> environment = or_str (env ''NODE_ENV'') ''development'',
                   logLevel = or_str (env ''LOG_LEVEL'') ''info'' \<rparr> \<rparr>)"
  by (simp add: loadConfig_def andThen_def getEnvVar_required getEnvVar_optional)

lemma requiredVars_nth:
  "length requiredVars = 5"
  "requiredVars ! 0 = ''TWITTER_API_KEY''"
  "requiredVars ! 1 = ''TWITTER_API_SECRET''"
  "requiredVars ! Suc 0 = ''TWITTER_API_SECRET''"
  "requiredVars ! 2 = ''TWITTER_ACCESS_TOKEN''"
  "requiredVars ! 3 = ''TWITTER_ACCESS_TOKEN_SECRET''"
  "requiredVars ! 4 = ''TWITTER_BEARER_TOKEN''"
  by (simp_all add: requiredVars_def)

lemma loadConfig_throws_at:
  "missingOrEmpty env (requiredVars ! 0) \<Longrightarrow> loadConfig env = Inl (missingVariable (requiredVars ! 0))"
  "\<not> missingOrEmpty env (requiredVars ! 0) \<Longrightarrow> missingOrEmpty env (requiredVars ! 1)
     \<Longrightarrow> loadConfig env = Inl (missingVariable (requiredVars ! 1))"
  "\<not> missingOrEmpty env (requiredVars ! 0) \<Longrightarrow> \<not> missingOrEmpty env (requiredVars ! 1)
     \<Longrightarrow> missingOrEmpty env (requiredVars ! 2)
     \<Longrightarrow> loadConfig env = Inl (missingVariable (requiredVars ! 2))"
  "\<not> missingOrEmpty env (requiredVars ! 0) \<Longrightarrow> \<not> missingOrEmpty env (requiredVars ! 1)
     \<Longrightarrow> \<not> missingOrEmpty env (requiredVars ! 2) \<Longrightarrow> missingOrEmpty env (requiredVars ! 3)
     \<Longrightarrow> loadConfig env = Inl (missingVariable (requiredVars ! 3))"
  "\<not> missingOrEmpty env (requiredVars ! 0) \<Longrightarrow> \<not> missingOrEmpty env (requiredVars ! 1)
     \<Longrightarrow> \<not> missingOrEmpty env (requiredVars ! 2) \<Longrightarrow> \<not> missingOrEmpty env (requiredVars ! 3)
     \<Longrightarrow> missingOrEmpty env (requiredVars ! 4)
     \<Longrightarrow> loadConfig env = Inl (missingVariable (requiredVars ! 4))"
  unfolding requiredVars_nth by (simp_all add: loadConfig_first_missing)

text \<open>
  Claim C8, as the code has it. If one of the five required variables is missing or
  empty, \<open>loadConfig\<close> throws, and the message names the first required variable, in
  the order the loader reads them, that is missing or empty. It is the variable in
  question whenever every required variable read before it is set.
\<close>

theorem loadConfig_names_first_missing:
  assumes "i < length requiredVars" and "missingOrEmpty env (requiredVars ! i)"
  shows "\<exists>j\<le>i. missingOrEmpty env (requiredVars ! j)
            \<and> (\<forall>k<j. \<not> missingOrEmpty env (requiredVars ! k))
            \<and> loadConfig env = Inl (missingVariable (requiredVars ! j))
            \<and> ((\<forall>k<i. \<not> missingOrEmpty env (requiredVars ! k)) \<longrightarrow> j = i)"
proof -
  define P where "P k = missingOrEmpty env (requiredVars ! k)" for k
  define j where "j = (LEAST k. P k)"
  have Pi: "P i" using assms(2) by (simp add: P_def)
  have Pj: "P j" unfolding j_def using Pi by (rule LeastI)
  have ji: "j \<le> i" unfolding j_def using Pi by (rule Least_le)
  have first: "\<not> P k" if "k < j" for k using that unfolding j_def by (rule not_less_Least)
  have "j < 5" using ji assms(1) by (simp add: requiredVars_nth)
  then consider "j = 0" | "j = 1" | "j = 2" | "j = 3" | "j = 4" by linarith
  then have thrown: "loadConfig env = Inl (missingVariable (requiredVars ! j))"
  proof cases
    case 1
    with Pj show ?thesis by (simp add: P_def loadConfig_throws_at(1))
  next
    case 2
    with Pj first [of 0] show ?thesis by (simp add: P_def loadConfig_throws_at(2))
  next
    case 3
    with Pj first [of 0] first [of 1] show ?thesis by (simp add: P_def loadConfig_throws_at(3))
  next
    case 4
    with Pj first [of 0] first [of 1] first [of 2] show ?thesis
      by (simp add: P_def loadConfig_throws_at(4))
  next
    case 5
    with Pj first [of 0] first [of 1] first [of 2] first [of 3] show ?thesis
      by (simp add: P_def loadConfig_throws_at(5))
  qed
  have same: "j = i" if "\<forall>k<i. \<not> missingOrEmpty env (requiredVars ! k)"
  proof (rule ccontr)
    assume "j \<noteq> i"
    with ji have "j < i" by simp
    with that have "\<not> P j" by (simp add: P_def)
    with Pj show False by simp
  qed
  from Pj first thrown same ji show ?thesis
    unfolding P_def by blast
qed

text \<open>With only the bearer token deleted, the error names the bearer token.\<close>

theorem loadConfig_names_first_missing_witness:
  "4 < length requiredVars
   \<and> missingOrEmpty (exampleEnv(''TWITTER_BEARER_TOKEN'' := None)) (requiredVars ! 4)
   \<and> loadConfig (exampleEnv(''TWITTER_BEARER_TOKEN'' := None))
       = Inl (ErrorInstance ''Missing required environment variable: TWITTER_BEARER_TOKEN'' NoProperty)"
proof -
  let ?env = "exampleEnv(''TWITTER_BEARER_TOKEN'' := None)"
  have h1: "4 < length requiredVars" by (simp add: requiredVars_nth)
  have h2: "missingOrEmpty ?env (requiredVars ! 4)"
    by (simp add: requiredVars_nth missingOrEmpty_def)
  have h3: "\<not> missingOrEmpty ?env (requiredVars ! k)" if "k < 4" for k
  proof -
    from that consider "k = 0" | "k = 1" | "k = 2" | "k = 3" by linarith
    then show ?thesis
      by cases (simp_all add: requiredVars_nth missingOrEmpty_def exampleEnv_def)
  qed
  from loadConfig_names_first_missing [OF h1 h2] obtain j
    where "loadConfig ?env = Inl (missingVariable (requiredVars ! j))"
      and "(\<forall>k<4. \<not> missingOrEmpty ?env (requiredVars ! k)) \<longrightarrow> j = 4"
    by blast
  with h3 have "loadConfig ?env = Inl (missingVariable (requiredVars ! 4))" by simp
  with h1 h2 show ?thesis by (simp add: requiredVars_nth missingVariable_def)
qed

text \<open>
  Claim C8 as worded fails when an earlier variable is missing too: in the empty
  environment \<open>TWITTER_BEARER_TOKEN\<close> is missing, and the error names
  \<open>TWITTER_API_KEY\<close>.
\<close>

theorem loadConfig_names_other_variable:
  "missingOrEmpty Map.empty ''TWITTER_BEARER_TOKEN''
   \<and> loadConfig Map.empty
       = Inl (ErrorInstance ''Missing required environment variable: TWITTER_API_KEY'' NoProperty)
   \<and> loadConfig Map.empty
       \<noteq> Inl (ErrorInstance ''Missing required environment variable: TWITTER_BEARER_TOKEN'' NoProperty)"
  by (simp add: loadConfig_first_missing missingOrEmpty_def missingVariable_def)

text \<open>
  Claim C9, as the code has it. With the five required variables set to non-empty
  strings, \<open>loadConfig\<close> returns a configuration; an unset optional variable gives the
  defaults \<open>development\<close>, \<open>info\<close> and the empty key; and \<open>NODE_ENV\<close> or \<open>LOG_LEVEL\<close>
  set to any non-empty string, in the enumeration or not, is passed through unchanged,
  while either of them set to the empty string gives its default.
\<close>

theorem loadConfig_defaults:
  assumes "\<forall>v \<in> set requiredVars. \<not> missingOrEmpty env v"
  shows "\<exists>cfg. loadConfig env = Inr cfg
           \<and> (env ''ANTHROPIC_API_KEY'' = None \<longrightarrow> anthropicApiKey (anthropic cfg) = [])
           \<and> (env ''NODE_ENV'' = None \<longrightarrow> environment (app cfg) = ''development'')
           \<and> (env ''LOG_LEVEL'' = None \<longrightarrow> logLevel (app cfg) = ''info'')
           \<and> (\<forall>s. env ''NODE_ENV'' = Some s \<and> s \<noteq> [] \<longrightarrow> environment (app cfg) = s)
           \<and> (\<forall>s. env ''LOG_LEVEL'' = Some s \<and> s \<noteq> [] \<longrightarrow> logLevel (app cfg) = s)
           \<and> (env ''NODE_ENV'' = Some [] \<longrightarrow> environment (app cfg) = ''development'')
           \<and> (env ''LOG_LEVEL'' = Some [] \<longrightarrow> logLevel (app cfg) = ''info'')"
  using assms by (simp add: loadConfig_first_missing requiredVars_def or_str_def)

text \<open>The value \<open>staging\<close>, outside the enumeration, is passed through.\<close>

theorem loadConfig_defaults_witness:
  "\<not> missingOrEmpty (exampleEnv(''NODE_ENV'' \<mapsto> ''staging'')) ''TWITTER_API_KEY''
   \<and> \<not> missingOrEmpty (exampleEnv(''NODE_ENV'' \<mapsto> ''staging'')) ''TWITTER_API_SECRET''
   \<and> \<not> missingOrEmpty (exampleEnv(''NODE_ENV'' \<mapsto> ''staging'')) ''TWITTER_ACCESS_TOKEN''
   \<and> \<not> missingOrEmpty (exampleEnv(''NODE_ENV'' \<mapsto> ''staging'')) ''TWITTER_ACCESS_TOKEN_SECRET''
   \<and> \<not> missingOrEmpty (exampleEnv(''NODE_ENV'' \<mapsto> ''staging'')) ''TWITTER_BEARER_TOKEN''
   \<and> loadConfig (exampleEnv(''NODE_ENV'' \<mapsto> ''staging'')) =
       Inr \<lparr> twitter = exampleConfig, anthropic = \<lparr> anthropicApiKey = [] \<rparr>,
             app = \<lparr> environment = ''staging'', logLevel = ''info'' \<rparr> \<rparr>"
proof -
  have all_set: "\<forall>v \<in> set requiredVars. \<not> missingOrEmpty (exampleEnv(''NODE_ENV'' \<mapsto> ''staging'')) v"
    by (simp add: requiredVars_def missingOrEmpty_def exampleEnv_def)
  from loadConfig_defaults [OF all_set] all_set show ?thesis
    by (simp add: loadConfig_first_missing requiredVars_def missingOrEmpty_def exampleEnv_def
          exampleConfig_def or_str_def)
qed

text \<open>
  Claim C9 as worded fails for the empty string, which is outside the enumeration:
  \<open>NODE_ENV\<close> set to it is replaced by the default \<open>development\<close>.
\<close>

theorem loadConfig_empty_NODE_ENV_defaulted:
  "loadConfig (exampleEnv(''NODE_ENV'' \<mapsto> [])) =
     Inr \<lparr> twitter = exampleConfig, anthropic = \<lparr> anthropicApiKey = [] \<rparr>,
           app = \<lparr> environment = ''development'', logLevel = ''info'' \<rparr> \<rparr>"
  by (simp add: loadConfig_first_missing missingOrEmpty_def exampleEnv_def exampleConfig_def or_str_def)

section \<open>The wrapper: construction and the credential probe\<close>

text \<open>
  Claim C7. The selector \<open>oauth1\<close> builds the handle from the four user-context
  credentials; every other selector, and an absent one, builds it from the bearer token
  alone. The read-only handle is a view of the same handle.
\<close>

theorem constructor_selects_credentials:
  "client (constructor \<lparr> config = cfg, authMethodOption = selector \<rparr>) =
     (if selector = Some ''oauth1''
      then UserContext (apiKey cfg) (apiSecret cfg) (accessToken cfg) (accessTokenSecret cfg)
      else BearerToken (bearerToken cfg))
   \<and> readOnlyClient (constructor \<lparr> config = cfg, authMethodOption = selector \<rparr>)
       = ReadOnly (client (constructor \<lparr> config = cfg, authMethodOption = selector \<rparr>))"
  by (cases selector) (simp_all add: constructor_def Let_def)

text \<open>The three selectors of the type, an unknown one, and none.\<close>

theorem constructor_selects_credentials_witness:
  "client (constructor \<lparr> config = exampleConfig, authMethodOption = Some ''oauth1'' \<rparr>)
     = UserContext ''test-api-key'' ''test-api-secret'' ''test-access-token'' ''test-access-token-secret''
   \<and> client (constructor \<lparr> config = exampleConfig, authMethodOption = Some ''oauth2-user'' \<rparr>)
     = BearerToken ''test-bearer-token''
   \<and> client (constructor \<lparr> config = exampleConfig, authMethodOption = Some ''basic'' \<rparr>)
     = BearerToken ''test-bearer-token''
   \<and> client (constructor \<lparr> config = exampleConfig, authMethodOption = None \<rparr>)
     = BearerToken ''test-bearer-token''"
  using constructor_selects_credentials [of exampleConfig "Some ''oauth1''"]
        constructor_selects_credentials [of exampleConfig "Some ''oauth2-user''"]
        constructor_selects_credentials [of exampleConfig "Some ''basic''"]
        constructor_selects_credentials [of exampleConfig None]
  by (simp add: exampleConfig_def)

text \<open>
  Claim C6. Under \<open>oauth1\<close> the probe is \<open>me\<close> and the answer is true exactly when a
  profile comes back; under any other method the probe is the lookup of the post list
  \<open>['1']\<close> and the answer is true whenever the call returns. A probe that throws
  gives false, and the promise is never rejected.
\<close>

theorem verifyCredentials_probes:
  "(authMethod self = ''oauth1'' \<longrightarrow>
      fst (verifyCredentials api self)
        = Inr (case me api () of Inl e \<Rightarrow> False | Inr profile \<Rightarrow> user_data profile \<noteq> None))
   \<and> (authMethod self \<noteq> ''oauth1'' \<longrightarrow>
      fst (verifyCredentials api self)
        = Inr (case tweets api [''1''] of Inl e \<Rightarrow> False | Inr found \<Rightarrow> True))"
  by (simp add: verifyCredentials_def verifyCredentials_try_def andThen_def split: sum.splits)

text \<open>An instance built for \<open>oauth1\<close> and one built with the default method, against a
  library that answers and one that throws.\<close>

theorem verifyCredentials_probes_witness:
  "authMethod (constructor \<lparr> config = exampleConfig, authMethodOption = Some ''oauth1'' \<rparr>) = ''oauth1''
   \<and> authMethod exampleClient \<noteq> ''oauth1''
   \<and> fst (verifyCredentials answeringApi
          (constructor \<lparr> config = exampleConfig, authMethodOption = Some ''oauth1'' \<rparr>)) = Inr True
   \<and> fst (verifyCredentials (throwingApi rateLimited)
          (constructor \<lparr> config = exampleConfig, authMethodOption = Some ''oauth1'' \<rparr>)) = Inr False
   \<and> fst (verifyCredentials answeringApi exampleClient) = Inr True
   \<and> fst (verifyCredentials (throwingApi rateLimited) exampleClient) = Inr False"
  using verifyCredentials_probes
          [of "constructor \<lparr> config = exampleConfig, authMethodOption = Some ''oauth1'' \<rparr>" answeringApi]
        verifyCredentials_probes
          [of "constructor \<lparr> config = exampleConfig, authMethodOption = Some ''oauth1'' \<rparr>"
              "throwingApi rateLimited"]
        verifyCredentials_probes [of exampleClient answeringApi]
        verifyCredentials_probes [of exampleClient "throwingApi rateLimited"]
  by (simp add: constructor_def Let_def exampleClient_def answeringApi_def throwingApi_def)

section \<open>The wrapper: failures of the library\<close>

lemma handleError_rateLimits:
  "rateLimits (handleError self (ErrorInstance message (Payload p)) context) =
     AList.update context
       \<lparr> endpoint = context, limit = rl_limit p, remaining = rl_remaining p,
         reset = newDate_ms (rl_reset p * 1000) \<rparr> (rateLimits self)"
  "rateLimits (handleError self (ErrorInstance message FalsyValue) context) = rateLimits self"
  "rateLimits (handleError self (ErrorInstance message NoProperty) context) = rateLimits self"
  "rateLimits (handleError self (NonError r) context) = rateLimits self"
  by (simp_all add: handleError_def console_error_def)

lemma handleError_console:
  "console (handleError self (ErrorInstance message r) context) =
     console self @ [(''[TwitterClient.'' @ context @ ''] Error:'', Text message)]"
  "console (handleError self (NonError r) context) =
     console self @ [(''[TwitterClient.'' @ context @ ''] Unknown error:'', Value (NonError r))]"
  by (simp_all add: handleError_def console_error_def Let_def split: rateLimit_prop.splits)

lemma handleError_changes_only_with_payload:
  assumes "rateLimits (handleError self e context) \<noteq> rateLimits self"
  shows "\<exists>message p. e = ErrorInstance message (Payload p)"
proof (cases e)
  case (ErrorInstance message r)
  with assms show ?thesis by (cases r) (simp_all add: handleError_rateLimits)
next
  case (NonError r)
  with assms show ?thesis by (simp add: handleError_rateLimits)
qed

lemma optionalISOString_throws:
  "optionalISOString d = Inl e \<Longrightarrow> e = ErrorInstance ''Invalid time value'' NoProperty"
  by (auto simp: optionalISOString_def toISOString_def andThen_def
           split: option.splits js_date.splits)

lemma getUser_try_throws:
  "getUser_try api rt name = Inl e \<longleftrightarrow> userByUsername api name \<lparr> user_fields = userFields \<rparr> = Inl e"
  by (simp add: getUser_try_def andThen_def split: sum.splits option.splits)

lemma getUserById_try_throws:
  "getUserById_try api rt uid = Inl e \<longleftrightarrow> user api uid \<lparr> user_fields = userFields \<rparr> = Inl e"
  by (simp add: getUserById_try_def andThen_def split: sum.splits option.splits)

lemma getTweet_try_throws:
  "getTweet_try api rt tid = Inl e \<longleftrightarrow>
     singleTweet api tid \<lparr> tweet_fields = tweetFields, media_fields = mediaFields,
                            expansions = tweetExpansions \<rparr> = Inl e"
  by (simp add: getTweet_try_def andThen_def split: sum.splits option.splits)

lemma searchTweets_try_throws:
  "searchTweets_try api rt query options = Inl e \<longleftrightarrow>
     search api query
       \<lparr> tweet_fields = tweetFields, media_fields = mediaFields, expansions = tweetExpansions,
         search_max_results = (case searchMaxResults options of None \<Rightarrow> 100 | Some n \<Rightarrow> n),
         search_next_token = searchPaginationToken options \<rparr> = Inl e"
  by (simp add: searchTweets_try_def andThen_def Let_def split: sum.splits)

lemma getUserTweets_try_client_throws:
  assumes "optionalISOString (startTime options) = Inr start_text"
    and "optionalISOString (endTime options) = Inr end_text"
  shows "getUserTweets_try api rt uid options = Inl e \<longleftrightarrow>
     userTimeline api uid
       \<lparr> tweet_fields = tweetFields, media_fields = mediaFields, expansions = tweetExpansions,
         max_results = (case maxResults options of None \<Rightarrow> 100 | Some n \<Rightarrow> n),
         pagination_token = paginationToken options,
         start_time = start_text, end_time = end_text \<rparr> = Inl e"
  using assms by (simp add: getUserTweets_try_def andThen_def Let_def split: sum.splits)

lemma getUserTweets_try_throws:
  assumes "getUserTweets_try api rt uid options = Inl e"
  shows "e = ErrorInstance ''Invalid time value'' NoProperty
         \<or> (\<exists>request. userTimeline api uid request = Inl e)"
proof (cases "optionalISOString (startTime options)")
  case (Inl a)
  with assms have "a = e" by (simp add: getUserTweets_try_def andThen_def)
  with Inl show ?thesis by (simp add: optionalISOString_throws)
next
  case start: (Inr start_text)
  show ?thesis
  proof (cases "optionalISOString (endTime options)")
    case (Inl a)
    with assms start have "a = e" by (simp add: getUserTweets_try_def andThen_def)
    with Inl show ?thesis by (simp add: optionalISOString_throws)
  next
    case (Inr end_text)
    with assms start show ?thesis
      by (simp only: getUserTweets_try_client_throws) (rule disjI2, rule exI)
  qed
qed

lemma state_after:
  "snd (verifyCredentials api self) =
     (case verifyCredentials_try api self of
        Inr v \<Rightarrow> self
      | Inl e \<Rightarrow> console_error self ''Credential verification failed:'' (Value e))"
  "snd (getUser api rt self name) =
     (case getUser_try api rt name of Inr v \<Rightarrow> self | Inl e \<Rightarrow> handleError self e ''getUser'')"
  "snd (getUserById api rt self uid) =
     (case getUserById_try api rt uid of Inr v \<Rightarrow> self | Inl e \<Rightarrow> handleError self e ''getUserById'')"
  "snd (getUserTweets api rt self uid timeline_options) =
     (case getUserTweets_try api rt uid timeline_options of
        Inr v \<Rightarrow> self | Inl e \<Rightarrow> handleError self e ''getUserTweets'')"
  "snd (getTweet api rt self tid) =
     (case getTweet_try api rt tid of Inr v \<Rightarrow> self | Inl e \<Rightarrow> handleError self e ''getTweet'')"
  "snd (searchTweets api rt self query search_options) =
     (case searchTweets_try api rt query search_options of
        Inr v \<Rightarrow> self | Inl e \<Rightarrow> handleError self e ''searchTweets'')"
  by (simp_all add: verifyCredentials_def getUser_def getUserById_def getUserTweets_def
        getTweet_def searchTweets_def split: sum.splits)

lemma result_of:
  "fst (verifyCredentials api self) =
     Inr (case verifyCredentials_try api self of Inr v \<Rightarrow> v | Inl e \<Rightarrow> False)"
  "fst (getUser api rt self name) =
     Inr (case getUser_try api rt name of Inr v \<Rightarrow> v | Inl e \<Rightarrow> None)"
  "fst (getUserById api rt self uid) =
     Inr (case getUserById_try api rt uid of Inr v \<Rightarrow> v | Inl e \<Rightarrow> None)"
  "fst (getUserTweets api rt self uid timeline_options) =
     Inr (case getUserTweets_try api rt uid timeline_options of
            Inr v \<Rightarrow> v
          | Inl e \<Rightarrow> \<lparr> data = [], meta = \<lparr> nextToken = None, previousToken = None, resultCount = 0 \<rparr> \<rparr>)"
  "fst (getTweet api rt self tid) =
     Inr (case getTweet_try api rt tid of Inr v \<Rightarrow> v | Inl e \<Rightarrow> None)"
  "fst (searchTweets api rt self query search_options) =
     Inr (case searchTweets_try api rt query search_options of
            Inr v \<Rightarrow> v
          | Inl e \<Rightarrow> \<lparr> data = [], meta = \<lparr> nextToken = None, previousToken = None, resultCount = 0 \<rparr> \<rparr>)"
  by (simp_all add: verifyCredentials_def getUser_def getUserById_def getUserTweets_def
        getTweet_def searchTweets_def split: sum.splits)

lemma verifyCredentials_try_throws:
  "verifyCredentials_try api self = Inl e \<longleftrightarrow>
     (if authMethod self = ''oauth1'' then me api () = Inl e else tweets api [''1''] = Inl e)"
  by (simp add: verifyCredentials_try_def andThen_def split: sum.splits)

text \<open>
  Claim C1. No operation rejects its promise, whatever the library does. When the call
  of the library throws, the operation returns its benign result: false for
  \<open>verifyCredentials\<close>, null for \<open>getUser\<close>, \<open>getUserById\<close> and \<open>getTweet\<close>, and a page with
  no posts and a result count of 0 for \<open>getUserTweets\<close> and \<open>searchTweets\<close>.
\<close>

theorem operations_catch_client_errors:
  "\<not> isl (fst (verifyCredentials api self))
   \<and> \<not> isl (fst (getUser api rt self name))
   \<and> \<not> isl (fst (getUserById api rt self uid))
   \<and> \<not> isl (fst (getUserTweets api rt self uid timeline_options))
   \<and> \<not> isl (fst (getTweet api rt self tid))
   \<and> \<not> isl (fst (searchTweets api rt self query search_options))
   \<and> (authMethod self = ''oauth1'' \<and> me api () = Inl e
        \<longrightarrow> fst (verifyCredentials api self) = Inr False)
   \<and> (authMethod self \<noteq> ''oauth1'' \<and> tweets api [''1''] = Inl e
        \<longrightarrow> fst (verifyCredentials api self) = Inr False)
   \<and> (userByUsername api name \<lparr> user_fields = userFields \<rparr> = Inl e
        \<longrightarrow> fst (getUser api rt self name) = Inr None)
   \<and> (user api uid \<lparr> user_fields = userFields \<rparr> = Inl e
        \<longrightarrow> fst (getUserById api rt self uid) = Inr None)
   \<and> (optionalISOString (startTime timeline_options) = Inr start_text
        \<and> optionalISOString (endTime timeline_options) = Inr end_text
        \<and> userTimeline api uid
             \<lparr> tweet_fields = tweetFields, media_fields = mediaFields,
               expansions = tweetExpansions,
               max_results = (case maxResults timeline_options of None \<Rightarrow> 100 | Some n \<Rightarrow> n),
               pagination_token = paginationToken timeline_options,
               start_time = start_text, end_time = end_text \<rparr> = Inl e
        \<longrightarrow> fst (getUserTweets api rt self uid timeline_options)
              = Inr \<lparr> data = [], meta = \<lparr> nextToken = None, previousToken = None, resultCount = 0 \<rparr> \<rparr>)
   \<and> (singleTweet api tid \<lparr> tweet_fields = tweetFields, media_fields = mediaFields,
                               expansions = tweetExpansions \<rparr> = Inl e
        \<longrightarrow> fst (getTweet api rt self tid) = Inr None)
   \<and> (search api query
          \<lparr> tweet_fields = tweetFields, media_fields = mediaFields, expansions = tweetExpansions,
            search_max_results = (case searchMaxResults search_options of None \<Rightarrow> 100 | Some n \<Rightarrow> n),
            search_next_token = searchPaginationToken search_options \<rparr> = Inl e
        \<longrightarrow> fst (searchTweets api rt self query search_options)
              = Inr \<lparr> data = [], meta = \<lparr> nextToken = None, previousToken = None, resultCount = 0 \<rparr> \<rparr>)"
proof -
  have never: "\<not> isl (fst (verifyCredentials api self))"
    "\<not> isl (fst (getUser api rt self name))"
    "\<not> isl (fst (getUserById api rt self uid))"
    "\<not> isl (fst (getUserTweets api rt self uid timeline_options))"
    "\<not> isl (fst (getTweet api rt self tid))"
    "\<not> isl (fst (searchTweets api rt self query search_options))"
    by (simp_all add: result_of)
  have probe1: "fst (verifyCredentials api self) = Inr False"
    if "authMethod self = ''oauth1'' \<and> me api () = Inl e"
    using that by (simp add: result_of verifyCredentials_try_def andThen_def)
  have probe2: "fst (verifyCredentials api self) = Inr False"
    if "authMethod self \<noteq> ''oauth1'' \<and> tweets api [''1''] = Inl e"
    using that by (simp add: result_of verifyCredentials_try_def andThen_def)
  have u1: "fst (getUser api rt self name) = Inr None"
    if "userByUsername api name \<lparr> user_fields = userFields \<rparr> = Inl e"
  proof -
    from that have "getUser_try api rt name = Inl e" by (simp add: getUser_try_throws)
    then show ?thesis by (simp add: result_of)
  qed
  have u2: "fst (getUserById api rt self uid) = Inr None"
    if "user api uid \<lparr> user_fields = userFields \<rparr> = Inl e"
  proof -
    from that have "getUserById_try api rt uid = Inl e" by (simp add: getUserById_try_throws)
    then show ?thesis by (simp add: result_of)
  qed
  have t1: "fst (getUserTweets api rt self uid timeline_options)
              = Inr \<lparr> data = [], meta = \<lparr> nextToken = None, previousToken = None, resultCount = 0 \<rparr> \<rparr>"
    if "optionalISOString (startTime timeline_options) = Inr start_text
        \<and> optionalISOString (endTime timeline_options) = Inr end_text
        \<and> userTimeline api uid
             \<lparr> tweet_fields = tweetFields, media_fields = mediaFields,
               expansions = tweetExpansions,
               max_results = (case maxResults timeline_options of None \<Rightarrow> 100 | Some n \<Rightarrow> n),
               pagination_token = paginationToken timeline_options,
               start_time = start_text, end_time = end_text \<rparr> = Inl e"
  proof -
    from that have "getUserTweets_try api rt uid timeline_options = Inl e"
      by (simp add: getUserTweets_try_client_throws)
    then show ?thesis by (simp add: result_of)
  qed
  have t2: "fst (getTweet api rt self tid) = Inr None"
    if "singleTweet api tid \<lparr> tweet_fields = tweetFields, media_fields = mediaFields,
                               expansions = tweetExpansions \<rparr> = Inl e"
  proof -
    from that have "getTweet_try api rt tid = Inl e" by (simp add: getTweet_try_throws)
    then show ?thesis by (simp add: result_of)
  qed
  have t3: "fst (searchTweets api rt self query search_options)
              = Inr \<lparr> data = [], meta = \<lparr> nextToken = None, previousToken = None, resultCount = 0 \<rparr> \<rparr>"
    if "search api query
          \<lparr> tweet_fields = tweetFields, media_fields = mediaFields, expansions = tweetExpansions,
            search_max_results = (case searchMaxResults search_options of None \<Rightarrow> 100 | Some n \<Rightarrow> n),
            search_next_token = searchPaginationToken search_options \<rparr> = Inl e"
  proof -
    from that have "searchTweets_try api rt query search_options = Inl e"
      by (simp add: searchTweets_try_throws)
    then show ?thesis by (simp add: result_of)
  qed
  from never probe1 probe2 u1 u2 t1 t2 t3 show ?thesis by blast
qed


text \<open>A library whose every call throws a rate-limit error, against the example instance.\<close>

theorem operations_catch_client_errors_witness:
  "authMethod exampleClient \<noteq> ''oauth1''
   \<and> tweets (throwingApi rateLimited) [''1''] = Inl rateLimited
   \<and> userByUsername (throwingApi rateLimited) ''testuser'' \<lparr> user_fields = userFields \<rparr>
       = Inl rateLimited
   \<and> user (throwingApi rateLimited) ''123'' \<lparr> user_fields = userFields \<rparr> = Inl rateLimited
   \<and> optionalISOString (startTime noTimelineOptions) = Inr None
   \<and> optionalISOString (endTime noTimelineOptions) = Inr None
   \<and> userTimeline (throwingApi rateLimited) ''123''
         \<lparr> tweet_fields = tweetFields, media_fields = mediaFields, expansions = tweetExpansions,
           max_results = 100, pagination_token = None, start_time = None, end_time = None \<rparr>
       = Inl rateLimited
   \<and> singleTweet (throwingApi rateLimited) ''missing''
         \<lparr> tweet_fields = tweetFields, media_fields = mediaFields, expansions = tweetExpansions \<rparr>
       = Inl rateLimited
   \<and> search (throwingApi rateLimited) ''test query''
         \<lparr> tweet_fields = tweetFields, media_fields = mediaFields, expansions = tweetExpansions,
           search_max_results = 100, search_next_token = None \<rparr>
       = Inl rateLimited
   \<and> fst (verifyCredentials (throwingApi rateLimited) exampleClient) = Inr False
   \<and> fst (getUser (throwingApi rateLimited) exampleRuntime exampleClient ''testuser'') = Inr None
   \<and> fst (getUserById (throwingApi rateLimited) exampleRuntime exampleClient ''123'') = Inr None
   \<and> fst (getUserTweets (throwingApi rateLimited) exampleRuntime exampleClient ''123'' noTimelineOptions)
       = Inr \<lparr> data = [], meta = \<lparr> nextToken = None, previousToken = None, resultCount = 0 \<rparr> \<rparr>
   \<and> fst (getTweet (throwingApi rateLimited) exampleRuntime exampleClient ''missing'') = Inr None
   \<and> fst (searchTweets (throwingApi rateLimited) exampleRuntime exampleClient ''test query'' noSearchOptions)
       = Inr \<lparr> data = [], meta = \<lparr> nextToken = None, previousToken = None, resultCount = 0 \<rparr> \<rparr>"
  using operations_catch_client_errors
          [where api = "throwingApi rateLimited" and self = exampleClient and rt = exampleRuntime
             and name = "''testuser''" and uid = "''123''" and timeline_options = noTimelineOptions
             and tid = "''missing''" and query = "''test query''"
             and search_options = noSearchOptions and e = rateLimited
             and start_text = None and end_text = None]
  by (simp add: throwingApi_def exampleClient_def constructor_def Let_def noTimelineOptions_def
        noSearchOptions_def optionalISOString_def)

section \<open>The rate-limit map\<close>








lemma verifyCredentials_rateLimits:
  "rateLimits (snd (verifyCredentials api self)) = rateLimits self"
  by (simp add: state_after console_error_def split: sum.splits)






lemma changed_only_by_payload:
  assumes "rateLimits (case body of Inr v \<Rightarrow> self | Inl e \<Rightarrow> handleError self e context)
             \<noteq> rateLimits self"
  shows "\<exists>message p. body = Inl (ErrorInstance message (Payload p))"
proof (cases body)
  case (Inl e)
  with assms have "rateLimits (handleError self e context) \<noteq> rateLimits self" by simp
  then have "\<exists>message p. e = ErrorInstance message (Payload p)"
    by (rule handleError_changes_only_with_payload)
  with Inl show ?thesis by simp
next
  case (Inr v)
  with assms show ?thesis by simp
qed

lemma getUserTweets_try_throws_payload:
  assumes "getUserTweets_try api rt uid timeline_options = Inl (ErrorInstance message (Payload p))"
  shows "\<exists>start_text end_text.
           optionalISOString (startTime timeline_options) = Inr start_text
           \<and> optionalISOString (endTime timeline_options) = Inr end_text
           \<and> userTimeline api uid
                \<lparr> tweet_fields = tweetFields, media_fields = mediaFields,
               expansions = tweetExpansions,
               max_results = (case maxResults timeline_options of None \<Rightarrow> 100 | Some n \<Rightarrow> n),
               pagination_token = paginationToken timeline_options,
               start_time = start_text, end_time = end_text \<rparr>
               = Inl (ErrorInstance message (Payload p))"
proof (cases "optionalISOString (startTime timeline_options)")
  case (Inl a)
  with assms have "a = ErrorInstance message (Payload p)"
    by (simp add: getUserTweets_try_def andThen_def)
  moreover from Inl have "a = ErrorInstance ''Invalid time value'' NoProperty"
    by (rule optionalISOString_throws)
  ultimately show ?thesis by simp
next
  case start: (Inr start_text)
  show ?thesis
  proof (cases "optionalISOString (endTime timeline_options)")
    case (Inl a)
    with assms start have "a = ErrorInstance message (Payload p)"
      by (simp add: getUserTweets_try_def andThen_def)
    moreover from Inl have "a = ErrorInstance ''Invalid time value'' NoProperty"
      by (rule optionalISOString_throws)
    ultimately show ?thesis by simp
  next
    case (Inr end_text)
    from assms have "userTimeline api uid
                \<lparr> tweet_fields = tweetFields, media_fields = mediaFields,
               expansions = tweetExpansions,
               max_results = (case maxResults timeline_options of None \<Rightarrow> 100 | Some n \<Rightarrow> n),
               pagination_token = paginationToken timeline_options,
               start_time = start_text, end_time = end_text \<rparr>
               = Inl (ErrorInstance message (Payload p))"
      by (simp only: getUserTweets_try_client_throws [OF start Inr])
    with start Inr show ?thesis by (intro exI conjI)
  qed
qed

text \<open>
  Claim C10. \<open>verifyCredentials\<close> never changes the rate-limit map. Any other operation
  changes it only if the very call it made of the library, with the request it built,
  threw an \<open>Error\<close> instance carrying a rate-limit payload; and an operation whose
  library call returns leaves the whole instance as it was. When the map is the same,
  \<open>getRateLimitInfo\<close> and \<open>getAllRateLimits\<close> answer the same. A thrown value that is not
  an \<open>Error\<close> instance, even one with rate-limit fields, is logged as an unknown error
  and leaves the map unchanged.
\<close>

theorem rate_limit_map_frame:
  "rateLimits (snd (verifyCredentials api self)) = rateLimits self
   \<and> (rateLimits (snd (getUser api rt self name)) \<noteq> rateLimits self
      \<longrightarrow> (\<exists>message p. userByUsername api name \<lparr> user_fields = userFields \<rparr>
                          = Inl (ErrorInstance message (Payload p))))
   \<and> (rateLimits (snd (getUserById api rt self uid)) \<noteq> rateLimits self
      \<longrightarrow> (\<exists>message p. user api uid \<lparr> user_fields = userFields \<rparr>
                          = Inl (ErrorInstance message (Payload p))))
   \<and> (rateLimits (snd (getUserTweets api rt self uid timeline_options)) \<noteq> rateLimits self
      \<longrightarrow> (\<exists>message p start_text end_text.
             optionalISOString (startTime timeline_options) = Inr start_text
             \<and> optionalISOString (endTime timeline_options) = Inr end_text
             \<and> userTimeline api uid
                  \<lparr> tweet_fields = tweetFields, media_fields = mediaFields,
               expansions = tweetExpansions,
               max_results = (case maxResults timeline_options of None \<Rightarrow> 100 | Some n \<Rightarrow> n),
               pagination_token = paginationToken timeline_options,
               start_time = start_text, end_time = end_text \<rparr>
                 = Inl (ErrorInstance message (Payload p))))
   \<and> (rateLimits (snd (getTweet api rt self tid)) \<noteq> rateLimits self
      \<longrightarrow> (\<exists>message p. singleTweet api tid
                  \<lparr> tweet_fields = tweetFields, media_fields = mediaFields,
               expansions = tweetExpansions \<rparr>
                 = Inl (ErrorInstance message (Payload p))))
   \<and> (rateLimits (snd (searchTweets api rt self query search_options)) \<noteq> rateLimits self
      \<longrightarrow> (\<exists>message p. search api query
                  \<lparr> tweet_fields = tweetFields, media_fields = mediaFields,
               expansions = tweetExpansions,
               search_max_results = (case searchMaxResults search_options of None \<Rightarrow> 100 | Some n \<Rightarrow> n),
               search_next_token = searchPaginationToken search_options \<rparr>
                 = Inl (ErrorInstance message (Payload p))))
   \<and> (rateLimits after = rateLimits self
      \<longrightarrow> getRateLimitInfo after operation = getRateLimitInfo self operation
          \<and> getAllRateLimits after = getAllRateLimits self)
   \<and> rateLimits (handleError self (NonError r) operation) = rateLimits self
   \<and> console (handleError self (NonError r) operation)
       = console self @ [(''[TwitterClient.'' @ operation @ ''] Unknown error:'', Value (NonError r))]
   \<and> (userByUsername api name \<lparr> user_fields = userFields \<rparr> = Inr user_response
      \<longrightarrow> snd (getUser api rt self name) = self)
   \<and> (user api uid \<lparr> user_fields = userFields \<rparr> = Inr user_response
      \<longrightarrow> snd (getUserById api rt self uid) = self)
   \<and> (optionalISOString (startTime timeline_options) = Inr start_text
        \<and> optionalISOString (endTime timeline_options) = Inr end_text
        \<and> userTimeline api uid
             \<lparr> tweet_fields = tweetFields, media_fields = mediaFields,
               expansions = tweetExpansions,
               max_results = (case maxResults timeline_options of None \<Rightarrow> 100 | Some n \<Rightarrow> n),
               pagination_token = paginationToken timeline_options,
               start_time = start_text, end_time = end_text \<rparr>
            = Inr page
      \<longrightarrow> snd (getUserTweets api rt self uid timeline_options) = self)
   \<and> (singleTweet api tid
             \<lparr> tweet_fields = tweetFields, media_fields = mediaFields,
               expansions = tweetExpansions \<rparr>
            = Inr tweet_response
      \<longrightarrow> snd (getTweet api rt self tid) = self)
   \<and> (search api query
             \<lparr> tweet_fields = tweetFields, media_fields = mediaFields,
               expansions = tweetExpansions,
               search_max_results = (case searchMaxResults search_options of None \<Rightarrow> 100 | Some n \<Rightarrow> n),
               search_next_token = searchPaginationToken search_options \<rparr>
            = Inr page
      \<longrightarrow> snd (searchTweets api rt self query search_options) = self)"
proof -
  have probe: "rateLimits (snd (verifyCredentials api self)) = rateLimits self"
    by (rule verifyCredentials_rateLimits)
  have u1: "rateLimits (snd (getUser api rt self name)) \<noteq> rateLimits self
      \<longrightarrow> (\<exists>message p. userByUsername api name \<lparr> user_fields = userFields \<rparr>
                          = Inl (ErrorInstance message (Payload p)))"
  proof
    assume "rateLimits (snd (getUser api rt self name)) \<noteq> rateLimits self"
    then obtain message p where "getUser_try api rt name = Inl (ErrorInstance message (Payload p))"
      unfolding state_after using changed_only_by_payload by blast
    then show "\<exists>message p. userByUsername api name \<lparr> user_fields = userFields \<rparr>
                          = Inl (ErrorInstance message (Payload p))"
      by (simp only: getUser_try_throws) blast
  qed
  have u2: "rateLimits (snd (getUserById api rt self uid)) \<noteq> rateLimits self
      \<longrightarrow> (\<exists>message p. user api uid \<lparr> user_fields = userFields \<rparr>
                          = Inl (ErrorInstance message (Payload p)))"
  proof
    assume "rateLimits (snd (getUserById api rt self uid)) \<noteq> rateLimits self"
    then obtain message p where "getUserById_try api rt uid = Inl (ErrorInstance message (Payload p))"
      unfolding state_after using changed_only_by_payload by blast
    then show "\<exists>message p. user api uid \<lparr> user_fields = userFields \<rparr>
                          = Inl (ErrorInstance message (Payload p))"
      by (simp only: getUserById_try_throws) blast
  qed
  have t1: "rateLimits (snd (getUserTweets api rt self uid timeline_options)) \<noteq> rateLimits self
      \<longrightarrow> (\<exists>message p start_text end_text.
             optionalISOString (startTime timeline_options) = Inr start_text
             \<and> optionalISOString (endTime timeline_options) = Inr end_text
             \<and> userTimeline api uid
                  \<lparr> tweet_fields = tweetFields, media_fields = mediaFields,
               expansions = tweetExpansions,
               max_results = (case maxResults timeline_options of None \<Rightarrow> 100 | Some n \<Rightarrow> n),
               pagination_token = paginationToken timeline_options,
               start_time = start_text, end_time = end_text \<rparr>
                 = Inl (ErrorInstance message (Payload p)))"
  proof
    assume "rateLimits (snd (getUserTweets api rt self uid timeline_options)) \<noteq> rateLimits self"
    then obtain message p
      where thrown: "getUserTweets_try api rt uid timeline_options
                       = Inl (ErrorInstance message (Payload p))"
      unfolding state_after using changed_only_by_payload by blast
    from getUserTweets_try_throws_payload [OF thrown]
    show "\<exists>message p start_text end_text.
             optionalISOString (startTime timeline_options) = Inr start_text
             \<and> optionalISOString (endTime timeline_options) = Inr end_text
             \<and> userTimeline api uid
                  \<lparr> tweet_fields = tweetFields, media_fields = mediaFields,
               expansions = tweetExpansions,
               max_results = (case maxResults timeline_options of None \<Rightarrow> 100 | Some n \<Rightarrow> n),
               pagination_token = paginationToken timeline_options,
               start_time = start_text, end_time = end_text \<rparr>
                 = Inl (ErrorInstance message (Payload p))"
      by blast
  qed
  have t2: "rateLimits (snd (getTweet api rt self tid)) \<noteq> rateLimits self
      \<longrightarrow> (\<exists>message p. singleTweet api tid
                  \<lparr> tweet_fields = tweetFields, media_fields = mediaFields,
               expansions = tweetExpansions \<rparr>
                 = Inl (ErrorInstance message (Payload p)))"
  proof
    assume "rateLimits (snd (getTweet api rt self tid)) \<noteq> rateLimits self"
    then obtain message p where "getTweet_try api rt tid = Inl (ErrorInstance message (Payload p))"
      unfolding state_after using changed_only_by_payload by blast
    then show "\<exists>message p. singleTweet api tid
                  \<lparr> tweet_fields = tweetFields, media_fields = mediaFields,
               expansions = tweetExpansions \<rparr>
                 = Inl (ErrorInstance message (Payload p))"
      by (simp only: getTweet_try_throws) blast
  qed
  have t3: "rateLimits (snd (searchTweets api rt self query search_options)) \<noteq> rateLimits self
      \<longrightarrow> (\<exists>message p. search api query
                  \<lparr> tweet_fields = tweetFields, media_fields = mediaFields,
               expansions = tweetExpansions,
               search_max_results = (case searchMaxResults search_options of None \<Rightarrow> 100 | Some n \<Rightarrow> n),
               search_next_token = searchPaginationToken search_options \<rparr>
                 = Inl (ErrorInstance message (Payload p)))"
  proof
    assume "rateLimits (snd (searchTweets api rt self query search_options)) \<noteq> rateLimits self"
    then obtain message p
      where "searchTweets_try api rt query search_options = Inl (ErrorInstance message (Payload p))"
      unfolding state_after using changed_only_by_payload by blast
    then show "\<exists>message p. search api query
                  \<lparr> tweet_fields = tweetFields, media_fields = mediaFields,
               expansions = tweetExpansions,
               search_max_results = (case searchMaxResults search_options of None \<Rightarrow> 100 | Some n \<Rightarrow> n),
               search_next_token = searchPaginationToken search_options \<rparr>
                 = Inl (ErrorInstance message (Payload p))"
      by (simp only: searchTweets_try_throws) blast
  qed
  have readers: "rateLimits after = rateLimits self
      \<longrightarrow> getRateLimitInfo after operation = getRateLimitInfo self operation
          \<and> getAllRateLimits after = getAllRateLimits self"
    by (simp add: getRateLimitInfo_def getAllRateLimits_def)
  have other_values:
    "rateLimits (handleError self (NonError r) operation) = rateLimits self"
    "console (handleError self (NonError r) operation)
       = console self @ [(''[TwitterClient.'' @ operation @ ''] Unknown error:'', Value (NonError r))]"
    by (simp_all add: handleError_rateLimits handleError_console)
  have answered:
    "userByUsername api name \<lparr> user_fields = userFields \<rparr> = Inr user_response
      \<longrightarrow> snd (getUser api rt self name) = self"
    "user api uid \<lparr> user_fields = userFields \<rparr> = Inr user_response
      \<longrightarrow> snd (getUserById api rt self uid) = self"
    "optionalISOString (startTime timeline_options) = Inr start_text
        \<and> optionalISOString (endTime timeline_options) = Inr end_text
        \<and> userTimeline api uid
             \<lparr> tweet_fields = tweetFields, media_fields = mediaFields,
               expansions = tweetExpansions,
               max_results = (case maxResults timeline_options of None \<Rightarrow> 100 | Some n \<Rightarrow> n),
               pagination_token = paginationToken timeline_options,
               start_time = start_text, end_time = end_text \<rparr>
            = Inr page
      \<longrightarrow> snd (getUserTweets api rt self uid timeline_options) = self"
    "singleTweet api tid
             \<lparr> tweet_fields = tweetFields, media_fields = mediaFields,
               expansions = tweetExpansions \<rparr>
            = Inr tweet_response
      \<longrightarrow> snd (getTweet api rt self tid) = self"
    "search api query
             \<lparr> tweet_fields = tweetFields, media_fields = mediaFields,
               expansions = tweetExpansions,
               search_max_results = (case searchMaxResults search_options of None \<Rightarrow> 100 | Some n \<Rightarrow> n),
               search_next_token = searchPaginationToken search_options \<rparr>
            = Inr page
      \<longrightarrow> snd (searchTweets api rt self query search_options) = self"
    by (simp_all add: state_after getUser_try_def getUserById_try_def getUserTweets_try_def
          getTweet_try_def searchTweets_try_def andThen_def Let_def split: option.splits)
  from probe u1 u2 t1 t2 t3 readers other_values answered show ?thesis
    by (intro conjI)
qed

text \<open>
  \<open>getUser\<close> against a library that throws a rate-limit error, one that answers, and one
  that throws a plain object with rate-limit fields; and \<open>searchTweets\<close> with the request
  it sends, against a library that answers it and one that throws.
\<close>

lemma exampleClient_fields:
  "rateLimits exampleClient = []" "console exampleClient = []"
  "authMethod exampleClient = ''oauth2-app''"
  by (simp_all add: exampleClient_def constructor_def Let_def)

lemma example_getUser_states:
  "snd (getUser (throwingApi e) rt s name) = handleError s e ''getUser''"
  "snd (getUser answeringApi rt s name) = s"
  by (simp_all add: state_after getUser_try_def throwingApi_def answeringApi_def andThen_def)

theorem rate_limit_map_frame_witness:
  "rateLimits (snd (getUser (throwingApi rateLimited) exampleRuntime exampleClient ''testuser''))
     \<noteq> rateLimits exampleClient
   \<and> userByUsername (throwingApi rateLimited) ''testuser'' \<lparr> user_fields = userFields \<rparr>
       = Inl (ErrorInstance ''Request failed with code 429''
                (Payload \<lparr> rl_limit = 15, rl_remaining = 0, rl_reset = 1762128900 \<rparr>))
   \<and> getAllRateLimits (snd (getUser answeringApi exampleRuntime exampleClient ''testuser''))
       = getAllRateLimits exampleClient
   \<and> getAllRateLimits
       (snd (getUser
               (throwingApi (NonError (Payload \<lparr> rl_limit = 15, rl_remaining = 0, rl_reset = 1762128900 \<rparr>)))
               exampleRuntime exampleClient ''testuser'')) = []
   \<and> console
       (snd (getUser
               (throwingApi (NonError (Payload \<lparr> rl_limit = 15, rl_remaining = 0, rl_reset = 1762128900 \<rparr>)))
               exampleRuntime exampleClient ''testuser''))
       = [(''[TwitterClient.getUser] Unknown error:'',
           Value (NonError (Payload \<lparr> rl_limit = 15, rl_remaining = 0, rl_reset = 1762128900 \<rparr>)))]
   \<and> search answeringApi ''test query''
         \<lparr> tweet_fields = tweetFields, media_fields = mediaFields, expansions = tweetExpansions,
           search_max_results = 100, search_next_token = None \<rparr>
       = Inr examplePage
   \<and> snd (searchTweets answeringApi exampleRuntime exampleClient ''test query'' noSearchOptions)
       = exampleClient
   \<and> rateLimits
        (snd (searchTweets (throwingApi rateLimited) exampleRuntime exampleClient ''test query''
                noSearchOptions))
       \<noteq> rateLimits exampleClient
   \<and> search (throwingApi rateLimited) ''test query''
         \<lparr> tweet_fields = tweetFields, media_fields = mediaFields, expansions = tweetExpansions,
           search_max_results = 100, search_next_token = None \<rparr>
       = Inl (ErrorInstance ''Request failed with code 429''
                (Payload \<lparr> rl_limit = 15, rl_remaining = 0, rl_reset = 1762128900 \<rparr>))"
proof -
  note frame =
    rate_limit_map_frame
      [where api = "throwingApi rateLimited" and rt = exampleRuntime and self = exampleClient
         and name = "''testuser''" and operation = "''getUser''"
         and query = "''test query''" and search_options = noSearchOptions
         and after = "snd (getUser answeringApi exampleRuntime exampleClient ''testuser'')"
         and r = "Payload \<lparr> rl_limit = 15, rl_remaining = 0, rl_reset = 1762128900 \<rparr>"]
  note answering =
    rate_limit_map_frame
      [where api = answeringApi and rt = exampleRuntime and self = exampleClient
         and query = "''test query''" and search_options = noSearchOptions
         and page = examplePage]
  note only_by_payload = frame [THEN conjunct2, THEN conjunct1]
  note search_only_by_payload =
    frame [THEN conjunct2, THEN conjunct2, THEN conjunct2, THEN conjunct2, THEN conjunct2,
           THEN conjunct1]
  note readers = frame [THEN conjunct2, THEN conjunct2, THEN conjunct2, THEN conjunct2,
                        THEN conjunct2, THEN conjunct2, THEN conjunct1]
  note other_map = frame [THEN conjunct2, THEN conjunct2, THEN conjunct2, THEN conjunct2,
                          THEN conjunct2, THEN conjunct2, THEN conjunct2, THEN conjunct1]
  note other_log = frame [THEN conjunct2, THEN conjunct2, THEN conjunct2, THEN conjunct2,
                          THEN conjunct2, THEN conjunct2, THEN conjunct2, THEN conjunct2,
                          THEN conjunct1]
  note search_answered =
    answering [THEN conjunct2, THEN conjunct2, THEN conjunct2, THEN conjunct2, THEN conjunct2,
               THEN conjunct2, THEN conjunct2, THEN conjunct2, THEN conjunct2, THEN conjunct2,
               THEN conjunct2, THEN conjunct2, THEN conjunct2]
  have changed:
    "rateLimits (snd (getUser (throwingApi rateLimited) exampleRuntime exampleClient ''testuser''))
       \<noteq> rateLimits exampleClient"
    by (simp add: example_getUser_states rateLimited_def handleError_rateLimits exampleClient_fields)
  have thrown:
    "userByUsername (throwingApi rateLimited) ''testuser'' \<lparr> user_fields = userFields \<rparr>
       = Inl (ErrorInstance ''Request failed with code 429''
                (Payload \<lparr> rl_limit = 15, rl_remaining = 0, rl_reset = 1762128900 \<rparr>))"
    by (simp add: throwingApi_def rateLimited_def)
  have same: "rateLimits (snd (getUser answeringApi exampleRuntime exampleClient ''testuser''))
                = rateLimits exampleClient"
    by (simp add: example_getUser_states)
  from readers same
  have answered: "getAllRateLimits (snd (getUser answeringApi exampleRuntime exampleClient ''testuser''))
                    = getAllRateLimits exampleClient"
    by simp
  from other_map
  have unrecorded: "getAllRateLimits
       (snd (getUser
               (throwingApi (NonError (Payload \<lparr> rl_limit = 15, rl_remaining = 0, rl_reset = 1762128900 \<rparr>)))
               exampleRuntime exampleClient ''testuser'')) = []"
    by (simp add: example_getUser_states getAllRateLimits_def exampleClient_fields)
  from other_log
  have logged: "console
       (snd (getUser
               (throwingApi (NonError (Payload \<lparr> rl_limit = 15, rl_remaining = 0, rl_reset = 1762128900 \<rparr>)))
               exampleRuntime exampleClient ''testuser''))
       = [(''[TwitterClient.getUser] Unknown error:'',
           Value (NonError (Payload \<lparr> rl_limit = 15, rl_remaining = 0, rl_reset = 1762128900 \<rparr>)))]"
    by (simp add: example_getUser_states exampleClient_fields)
  from only_by_payload changed
  have "\<exists>message p. userByUsername (throwingApi rateLimited) ''testuser'' \<lparr> user_fields = userFields \<rparr>
                       = Inl (ErrorInstance message (Payload p))"
    by (rule mp)
  have search_request:
    "search answeringApi ''test query''
         \<lparr> tweet_fields = tweetFields, media_fields = mediaFields, expansions = tweetExpansions,
           search_max_results = (case searchMaxResults noSearchOptions of None \<Rightarrow> 100 | Some n \<Rightarrow> n),
           search_next_token = searchPaginationToken noSearchOptions \<rparr>
       = Inr examplePage"
    by (simp add: answeringApi_def)
  from search_answered search_request
  have search_same:
    "snd (searchTweets answeringApi exampleRuntime exampleClient ''test query'' noSearchOptions)
       = exampleClient"
    by (rule mp)
  from search_request
  have search_sent:
    "search answeringApi ''test query''
         \<lparr> tweet_fields = tweetFields, media_fields = mediaFields, expansions = tweetExpansions,
           search_max_results = 100, search_next_token = None \<rparr>
       = Inr examplePage"
    by (simp add: noSearchOptions_def)
  have search_changed:
    "rateLimits
        (snd (searchTweets (throwingApi rateLimited) exampleRuntime exampleClient ''test query''
                noSearchOptions))
       \<noteq> rateLimits exampleClient"
    by (simp add: state_after searchTweets_try_def throwingApi_def andThen_def rateLimited_def
          handleError_rateLimits exampleClient_fields)
  from search_only_by_payload search_changed
  have "\<exists>message p. search (throwingApi rateLimited) ''test query''
         \<lparr> tweet_fields = tweetFields, media_fields = mediaFields, expansions = tweetExpansions,
           search_max_results = (case searchMaxResults noSearchOptions of None \<Rightarrow> 100 | Some n \<Rightarrow> n),
           search_next_token = searchPaginationToken noSearchOptions \<rparr>
       = Inl (ErrorInstance message (Payload p))"
    by (rule mp)
  have search_thrown:
    "search (throwingApi rateLimited) ''test query''
         \<lparr> tweet_fields = tweetFields, media_fields = mediaFields, expansions = tweetExpansions,
           search_max_results = 100, search_next_token = None \<rparr>
       = Inl (ErrorInstance ''Request failed with code 429''
                (Payload \<lparr> rl_limit = 15, rl_remaining = 0, rl_reset = 1762128900 \<rparr>))"
    by (simp add: throwingApi_def rateLimited_def)
  from changed thrown answered unrecorded logged search_sent search_same search_changed
    search_thrown
  show ?thesis by (intro conjI)
qed

section \<open>Mapping raw payloads to the domain model\<close>

lemma or_num_zero: "or_num x 0 = (case x of None \<Rightarrow> 0 | Some n \<Rightarrow> n)"
  by (simp add: or_num_def split: option.splits)

lemma mapTweet_metrics:
  "likes (metrics (mapTweet rt tweet mediaMap))
     = (case Option.bind (tweet_public_metrics tweet) like_count of None \<Rightarrow> 0 | Some n \<Rightarrow> n)"
  "retweets (metrics (mapTweet rt tweet mediaMap))
     = (case Option.bind (tweet_public_metrics tweet) retweet_count of None \<Rightarrow> 0 | Some n \<Rightarrow> n)"
  "replies (metrics (mapTweet rt tweet mediaMap))
     = (case Option.bind (tweet_public_metrics tweet) reply_count of None \<Rightarrow> 0 | Some n \<Rightarrow> n)"
  "impressions (metrics (mapTweet rt tweet mediaMap))
     = (case Option.bind (tweet_public_metrics tweet) impression_count of None \<Rightarrow> 0 | Some n \<Rightarrow> n)"
  "quotes (metrics (mapTweet rt tweet mediaMap))
     = (case Option.bind (tweet_public_metrics tweet) quote_count of None \<Rightarrow> 0 | Some n \<Rightarrow> n)"
  "bookmarks (metrics (mapTweet rt tweet mediaMap))
     = (case Option.bind (tweet_public_metrics tweet) bookmark_count of None \<Rightarrow> 0 | Some n \<Rightarrow> n)"
  by (simp_all add: mapTweet_def Let_def or_num_zero)

lemma mapUser_counts:
  "followersCount (mapUser rt u)
     = (case Option.bind (user_public_metrics u) followers_count of None \<Rightarrow> 0 | Some n \<Rightarrow> n)"
  "followingCount (mapUser rt u)
     = (case Option.bind (user_public_metrics u) following_count of None \<Rightarrow> 0 | Some n \<Rightarrow> n)"
  "tweetCount (mapUser rt u)
     = (case Option.bind (user_public_metrics u) tweet_count of None \<Rightarrow> 0 | Some n \<Rightarrow> n)"
  by (simp_all add: mapUser_def Let_def or_num_zero)

lemma mapTweet_createdAt:
  "createdAt (mapTweet rt tweet mediaMap)
     = (case tweet_created_at tweet of
          None \<Rightarrow> Date (now rt)
        | Some s \<Rightarrow> if s = [] then Date (now rt) else newDate_str rt s)"
  by (simp add: mapTweet_def Let_def newDate_now_def split: option.splits)

lemma mapTweet_referencedTweets:
  "referencedTweets (mapTweet rt tweet mediaMap)
     = map_option (map (\<lambda>ref. \<lparr> referenced_type = ref_type ref, referenced_id = ref_id ref \<rparr>))
         (tweet_referenced_tweets tweet)"
  by (simp add: mapTweet_def Let_def)

lemma mapTweet_media: "media (mapTweet rt tweet mediaMap) = None"
  by (simp add: mapTweet_def Let_def)

text \<open>
  Claim C3, as the code has it. Each of the six metrics is the value of its own
  sub-field, and 0 when that sub-field, or the metrics object, is absent. An absent or
  empty creation timestamp gives the clock reading; any other string is given to the
  date parser, so an unparsable one gives the invalid date. The references are absent
  when the source list is, and otherwise the source list entry by entry, kind and
  target id unchanged, whatever the kind.
\<close>

theorem mapTweet_defaults:
  "likes (metrics (mapTweet rt tweet mediaMap))
     = (case Option.bind (tweet_public_metrics tweet) like_count of None \<Rightarrow> 0 | Some n \<Rightarrow> n)
   \<and> retweets (metrics (mapTweet rt tweet mediaMap))
     = (case Option.bind (tweet_public_metrics tweet) retweet_count of None \<Rightarrow> 0 | Some n \<Rightarrow> n)
   \<and> replies (metrics (mapTweet rt tweet mediaMap))
     = (case Option.bind (tweet_public_metrics tweet) reply_count of None \<Rightarrow> 0 | Some n \<Rightarrow> n)
   \<and> impressions (metrics (mapTweet rt tweet mediaMap))
     = (case Option.bind (tweet_public_metrics tweet) impression_count of None \<Rightarrow> 0 | Some n \<Rightarrow> n)
   \<and> quotes (metrics (mapTweet rt tweet mediaMap))
     = (case Option.bind (tweet_public_metrics tweet) quote_count of None \<Rightarrow> 0 | Some n \<Rightarrow> n)
   \<and> bookmarks (metrics (mapTweet rt tweet mediaMap))
     = (case Option.bind (tweet_public_metrics tweet) bookmark_count of None \<Rightarrow> 0 | Some n \<Rightarrow> n)
   \<and> (tweet_created_at tweet = None \<or> tweet_created_at tweet = Some []
      \<longrightarrow> createdAt (mapTweet rt tweet mediaMap) = Date (now rt))
   \<and> (tweet_created_at tweet = Some s \<and> s \<noteq> []
      \<longrightarrow> createdAt (mapTweet rt tweet mediaMap) = newDate_str rt s)
   \<and> (tweet_created_at tweet = Some s \<and> s \<noteq> [] \<and> dateParse rt s = None
      \<longrightarrow> createdAt (mapTweet rt tweet mediaMap) = InvalidDate)
   \<and> (tweet_referenced_tweets tweet = None
      \<longrightarrow> referencedTweets (mapTweet rt tweet mediaMap) = None)
   \<and> (tweet_referenced_tweets tweet = Some refs
      \<longrightarrow> referencedTweets (mapTweet rt tweet mediaMap)
          = Some (map (\<lambda>ref. \<lparr> referenced_type = ref_type ref, referenced_id = ref_id ref \<rparr>) refs))"
proof -
  have absent: "tweet_created_at tweet = None \<or> tweet_created_at tweet = Some []
      \<longrightarrow> createdAt (mapTweet rt tweet mediaMap) = Date (now rt)"
    by (auto simp: mapTweet_createdAt)
  have given: "tweet_created_at tweet = Some s \<and> s \<noteq> []
      \<longrightarrow> createdAt (mapTweet rt tweet mediaMap) = newDate_str rt s"
    by (simp add: mapTweet_createdAt)
  have unparsable: "tweet_created_at tweet = Some s \<and> s \<noteq> [] \<and> dateParse rt s = None
      \<longrightarrow> createdAt (mapTweet rt tweet mediaMap) = InvalidDate"
    by (simp add: mapTweet_createdAt newDate_str_def)
  have refs:
    "tweet_referenced_tweets tweet = None
      \<longrightarrow> referencedTweets (mapTweet rt tweet mediaMap) = None"
    "tweet_referenced_tweets tweet = Some refs
      \<longrightarrow> referencedTweets (mapTweet rt tweet mediaMap)
          = Some (map (\<lambda>ref. \<lparr> referenced_type = ref_type ref, referenced_id = ref_id ref \<rparr>) refs)"
    by (simp_all add: mapTweet_referencedTweets)
  from mapTweet_metrics [of rt tweet mediaMap] absent given unparsable refs
  show ?thesis by (intro conjI)
qed

text \<open>
  The example post: two metrics absent, a timestamp the parser knows, and a reference of
  the unknown kind \<open>pinned\<close>.
\<close>

theorem mapTweet_defaults_witness:
  "tweet_created_at exampleTweet = Some ''2024-01-01T00:00:00.000Z''
   \<and> tweet_referenced_tweets exampleTweet = Some [\<lparr> ref_type = ''pinned'', ref_id = ''tweet0'' \<rparr>]
   \<and> metrics (mapTweet exampleRuntime exampleTweet (mediaMapOf None))
     = \<lparr> likes = 100, retweets = 50, replies = 10, impressions = 5000, quotes = 0, bookmarks = 0 \<rparr>
   \<and> createdAt (mapTweet exampleRuntime exampleTweet (mediaMapOf None)) = Date 1704067200000
   \<and> createdAt (mapTweet exampleRuntime (exampleTweet\<lparr> tweet_created_at := None \<rparr>) (mediaMapOf None))
       = Date 1762128000000
   \<and> referencedTweets (mapTweet exampleRuntime exampleTweet (mediaMapOf None))
       = Some [\<lparr> referenced_type = ''pinned'', referenced_id = ''tweet0'' \<rparr>]
   \<and> referencedTweets
       (mapTweet exampleRuntime (exampleTweet\<lparr> tweet_referenced_tweets := None \<rparr>) (mediaMapOf None))
       = None"
  using mapTweet_defaults
          [where rt = exampleRuntime and tweet = exampleTweet and mediaMap = "mediaMapOf None"
             and s = "''2024-01-01T00:00:00.000Z''"
             and refs = "[\<lparr> ref_type = ''pinned'', ref_id = ''tweet0'' \<rparr>]"]
        mapTweet_defaults
          [where rt = exampleRuntime and tweet = "exampleTweet\<lparr> tweet_created_at := None \<rparr>"
             and mediaMap = "mediaMapOf None"]
        mapTweet_defaults
          [where rt = exampleRuntime and tweet = "exampleTweet\<lparr> tweet_referenced_tweets := None \<rparr>"
             and mediaMap = "mediaMapOf None"]
  by (simp add: exampleTweet_def exampleRuntime_def newDate_str_def newDate_ms_def mapTweet_def Let_def
        or_num_def)

text \<open>
  Claim C3 as worded fails for an unparsable timestamp: \<open>not a date\<close> is a non-empty
  string, so it goes to the parser and the post carries the invalid date, not the
  clock reading.
\<close>

theorem unparsable_timestamp_is_invalid_date:
  "dateParse exampleRuntime ''not a date'' = None
   \<and> createdAt (mapTweet exampleRuntime (exampleTweet\<lparr> tweet_created_at := Some ''not a date'' \<rparr>)
                  (mediaMapOf None)) = InvalidDate
   \<and> createdAt (mapTweet exampleRuntime (exampleTweet\<lparr> tweet_created_at := Some ''not a date'' \<rparr>)
                  (mediaMapOf None)) \<noteq> Date (now exampleRuntime)"
  by (simp add: mapTweet_createdAt exampleTweet_def exampleRuntime_def newDate_str_def)

text \<open>
  Claim C5, as the code has it. Every metric of a post and every count of a profile is
  a number: the upstream value when there is one, and 0 otherwise. It is therefore
  non-negative whenever the upstream value is absent or non-negative.
\<close>

theorem counts_zero_filled:
  "likes (metrics (mapTweet rt tweet mediaMap))
     = (case Option.bind (tweet_public_metrics tweet) like_count of None \<Rightarrow> 0 | Some n \<Rightarrow> n)
   \<and> retweets (metrics (mapTweet rt tweet mediaMap))
     = (case Option.bind (tweet_public_metrics tweet) retweet_count of None \<Rightarrow> 0 | Some n \<Rightarrow> n)
   \<and> replies (metrics (mapTweet rt tweet mediaMap))
     = (case Option.bind (tweet_public_metrics tweet) reply_count of None \<Rightarrow> 0 | Some n \<Rightarrow> n)
   \<and> impressions (metrics (mapTweet rt tweet mediaMap))
     = (case Option.bind (tweet_public_metrics tweet) impression_count of None \<Rightarrow> 0 | Some n \<Rightarrow> n)
   \<and> quotes (metrics (mapTweet rt tweet mediaMap))
     = (case Option.bind (tweet_public_metrics tweet) quote_count of None \<Rightarrow> 0 | Some n \<Rightarrow> n)
   \<and> bookmarks (metrics (mapTweet rt tweet mediaMap))
     = (case Option.bind (tweet_public_metrics tweet) bookmark_count of None \<Rightarrow> 0 | Some n \<Rightarrow> n)
   \<and> followersCount (mapUser rt u)
     = (case Option.bind (user_public_metrics u) followers_count of None \<Rightarrow> 0 | Some n \<Rightarrow> n)
   \<and> followingCount (mapUser rt u)
     = (case Option.bind (user_public_metrics u) following_count of None \<Rightarrow> 0 | Some n \<Rightarrow> n)
   \<and> tweetCount (mapUser rt u)
     = (case Option.bind (user_public_metrics u) tweet_count of None \<Rightarrow> 0 | Some n \<Rightarrow> n)
   \<and> ((\<forall>n. Option.bind (tweet_public_metrics tweet) like_count = Some n \<longrightarrow> 0 \<le> n)
      \<longrightarrow> 0 \<le> likes (metrics (mapTweet rt tweet mediaMap)))
   \<and> ((\<forall>n. Option.bind (tweet_public_metrics tweet) retweet_count = Some n \<longrightarrow> 0 \<le> n)
      \<longrightarrow> 0 \<le> retweets (metrics (mapTweet rt tweet mediaMap)))
   \<and> ((\<forall>n. Option.bind (tweet_public_metrics tweet) reply_count = Some n \<longrightarrow> 0 \<le> n)
      \<longrightarrow> 0 \<le> replies (metrics (mapTweet rt tweet mediaMap)))
   \<and> ((\<forall>n. Option.bind (tweet_public_metrics tweet) impression_count = Some n \<longrightarrow> 0 \<le> n)
      \<longrightarrow> 0 \<le> impressions (metrics (mapTweet rt tweet mediaMap)))
   \<and> ((\<forall>n. Option.bind (tweet_public_metrics tweet) quote_count = Some n \<longrightarrow> 0 \<le> n)
      \<longrightarrow> 0 \<le> quotes (metrics (mapTweet rt tweet mediaMap)))
   \<and> ((\<forall>n. Option.bind (tweet_public_metrics tweet) bookmark_count = Some n \<longrightarrow> 0 \<le> n)
      \<longrightarrow> 0 \<le> bookmarks (metrics (mapTweet rt tweet mediaMap)))
   \<and> ((\<forall>n. Option.bind (user_public_metrics u) followers_count = Some n \<longrightarrow> 0 \<le> n)
      \<longrightarrow> 0 \<le> followersCount (mapUser rt u))
   \<and> ((\<forall>n. Option.bind (user_public_metrics u) following_count = Some n \<longrightarrow> 0 \<le> n)
      \<longrightarrow> 0 \<le> followingCount (mapUser rt u))
   \<and> ((\<forall>n. Option.bind (user_public_metrics u) tweet_count = Some n \<longrightarrow> 0 \<le> n)
      \<longrightarrow> 0 \<le> tweetCount (mapUser rt u))"
proof -
  have nonneg: "(\<forall>n. x = Some n \<longrightarrow> 0 \<le> n) \<longrightarrow> 0 \<le> (case x of None \<Rightarrow> 0 | Some n \<Rightarrow> n)"
    for x :: "int option"
    by (cases x) simp_all
  show ?thesis
    unfolding mapTweet_metrics mapUser_counts
    by (intro conjI refl nonneg)
qed

text \<open>The example post and profile, and the profile without its metrics object.\<close>

theorem counts_zero_filled_witness:
  "Option.bind (tweet_public_metrics exampleTweet) like_count = Some 100
   \<and> Option.bind (tweet_public_metrics exampleTweet) quote_count = None
   \<and> Option.bind (user_public_metrics exampleUser) tweet_count = Some 100
   \<and> metrics (mapTweet exampleRuntime exampleTweet (mediaMapOf None))
     = \<lparr> likes = 100, retweets = 50, replies = 10, impressions = 5000, quotes = 0, bookmarks = 0 \<rparr>
   \<and> followersCount (mapUser exampleRuntime exampleUser) = 1000
   \<and> followingCount (mapUser exampleRuntime (exampleUser\<lparr> user_public_metrics := None \<rparr>)) = 0
   \<and> 0 \<le> tweetCount (mapUser exampleRuntime exampleUser)"
  using counts_zero_filled
          [where rt = exampleRuntime and tweet = exampleTweet and mediaMap = "mediaMapOf None"
             and u = exampleUser]
        counts_zero_filled
          [where rt = exampleRuntime and tweet = exampleTweet and mediaMap = "mediaMapOf None"
             and u = "exampleUser\<lparr> user_public_metrics := None \<rparr>"]
  by (simp add: exampleTweet_def exampleUser_def mapTweet_def mapUser_def Let_def or_num_def)

text \<open>
  Claim C5 as worded fails for a negative upstream value: it is truthy, so \<open>|| 0\<close>
  keeps it.
\<close>

theorem negative_count_passes_through:
  "likes (metrics (mapTweet exampleRuntime
            (exampleTweet\<lparr> tweet_public_metrics :=
               Some \<lparr> like_count = Some (- 5), retweet_count = None, reply_count = None,
                      impression_count = None, quote_count = None, bookmark_count = None \<rparr> \<rparr>)
            (mediaMapOf None))) = - 5
   \<and> followersCount (mapUser exampleRuntime
        (exampleUser\<lparr> user_public_metrics :=
           Some \<lparr> followers_count = Some (- 1), following_count = None, tweet_count = None \<rparr> \<rparr>))
       = - 1"
  by (simp add: mapTweet_metrics mapUser_counts)

text \<open>
  Claim C4 does not hold of the code. The example post has the media key \<open>3_1\<close>, the
  response includes the media object with that key, and the map built from the
  response finds it; the posts returned by \<open>getUserTweets\<close>, \<open>getTweet\<close> and
  \<open>searchTweets\<close> have no \<open>media\<close> all the same.
\<close>

theorem media_never_populated:
  "tweet_attachments_media_keys exampleTweet = Some [''3_1'']
   \<and> mediaMapOf (page_includes_media examplePage) ''3_1'' = Some examplePhoto
   \<and> fst (getUserTweets answeringApi exampleRuntime exampleClient ''123'' noTimelineOptions)
       = Inr \<lparr> data =
                 [\<lparr> tweetId = ''tweet1'', tweetText = ''Test tweet'', authorId = ''123'',
                    createdAt = Date 1704067200000,
                    metrics = \<lparr> likes = 100, retweets = 50, replies = 10, impressions = 5000,
                                quotes = 0, bookmarks = 0 \<rparr>,
                    media = None,
                    referencedTweets =
                      Some [\<lparr> referenced_type = ''pinned'', referenced_id = ''tweet0'' \<rparr>] \<rparr>],
               meta = \<lparr> nextToken = Some ''next123'', previousToken = None, resultCount = 1 \<rparr> \<rparr>
   \<and> map_sum id (map_option media) (fst (getTweet answeringApi exampleRuntime exampleClient ''tweet1''))
       = Inr (Some None)
   \<and> map_sum id (map media \<circ> data)
        (fst (searchTweets answeringApi exampleRuntime exampleClient ''test query'' noSearchOptions))
       = Inr [None]"
  by (simp add: result_of getUserTweets_try_def getTweet_try_def searchTweets_try_def
        answeringApi_def andThen_def optionalISOString_def noTimelineOptions_def noSearchOptions_def
        examplePage_def exampleTweet_def examplePhoto_def exampleRuntime_def mediaMapOf_def
        mapTweet_def Let_def or_num_def or_str_def newDate_str_def newDate_ms_def)

end
